theory Spec2Isabelle
  imports Main
begin

section \<open>Python values\<close>

text \<open>
  The values that \<^verbatim>\<open>response.json()\<close> hands to the program are Python objects built from
  JSON: \<^verbatim>\<open>None\<close>, booleans, integers, floats, strings, lists and dicts with string keys.
  A float is named by its \<^verbatim>\<open>repr\<close> (the shortest decimal that reads back as the same float):
  the program never computes with one, it only tests it for truth and prints it.
  A dict is kept as the list of its items in insertion order; a Python dict has no
  duplicate key, and a lookup here takes the first binding.
  Characters are the code points below 256.
\<close>

datatype json =
    JNull
  | JBool bool
  | JInt int
  | JFloat string
  | JStr string
  | JArr "json list"
  | JObj "(string \<times> json) list"

text \<open>Truth value testing, as \<^verbatim>\<open>bool(x)\<close> and \<^verbatim>\<open>if x\<close> do it.\<close>

fun truthy :: "json \<Rightarrow> bool" where
  "truthy JNull = False"
| "truthy (JBool b) = b"
| "truthy (JInt i) = (i \<noteq> 0)"
| "truthy (JFloat r) = (r \<noteq> ''0.0'' \<and> r \<noteq> ''-0.0'')"
| "truthy (JStr s) = (s \<noteq> [])"
| "truthy (JArr xs) = (xs \<noteq> [])"
| "truthy (JObj kvs) = (kvs \<noteq> [])"

subsection \<open>Exceptions\<close>

text \<open>
  What the program reads of a \<^verbatim>\<open>requests.Response\<close>: \<^verbatim>\<open>status_code\<close>, \<^verbatim>\<open>text\<close>, and the
  outcome of \<^verbatim>\<open>json()\<close> (\<open>None\<close> when the body does not decode).
\<close>

record http_response =
  status_code :: nat
  text_of :: string
  json_of :: "json option"

text \<open>
  The exception classes the program meets. \<open>RequestException\<close> stands for a failure of
  \<^verbatim>\<open>requests\<close> that carries no HTTP response (\<^verbatim>\<open>ConnectionError\<close>, \<^verbatim>\<open>Timeout\<close>);
  \<open>HTTPError\<close> is raised by \<^verbatim>\<open>raise_for_status\<close> and carries the response;
  \<open>HTTPException\<close> is FastAPI's, with its status code and detail.
  All of them derive from \<^verbatim>\<open>Exception\<close>.
\<close>

datatype exn =
    RequestException
  | HTTPError http_response
  | JSONDecodeError
  | ValidationError
  | KeyError
  | IndexError
  | TypeError
  | AttributeError
  | OtherException
  | HTTPException nat string

definition try_bind :: "exn + 'a \<Rightarrow> ('a \<Rightarrow> exn + 'b) \<Rightarrow> exn + 'b" where
  "try_bind r f = (case r of Inl e \<Rightarrow> Inl e | Inr v \<Rightarrow> f v)"

subsection \<open>Rendering: \<^verbatim>\<open>str\<close> and \<^verbatim>\<open>repr\<close>\<close>

fun digits :: "nat \<Rightarrow> string" where
  "digits n = (if n < 10 then [''0123456789'' ! n]
               else digits (n div 10) @ [''0123456789'' ! (n mod 10)])"

declare digits.simps [simp del]

definition str_int :: "int \<Rightarrow> string" where
  "str_int i = (if i < 0 then CHR ''-'' # digits (nat (- i)) else digits (nat i))"

definition hex2 :: "nat \<Rightarrow> string" where
  "hex2 n = [''0123456789abcdef'' ! (n div 16), ''0123456789abcdef'' ! (n mod 16)]"

definition printable :: "char \<Rightarrow> bool" where
  "printable c =
     (32 \<le> (of_char c :: nat) \<and> (of_char c :: nat) < 127
      \<or> 161 \<le> (of_char c :: nat) \<and> (of_char c :: nat) \<noteq> 173)"

definition repr_char :: "char \<Rightarrow> char \<Rightarrow> string" where
  "repr_char quote c =
     (if c = quote \<or> c = CHR 0x5C then [CHR 0x5C, c]
      else if c = CHR 0x09 then [CHR 0x5C, CHR ''t'']
      else if c = CHR 0x0A then [CHR 0x5C, CHR ''n'']
      else if c = CHR 0x0D then [CHR 0x5C, CHR ''r'']
      else if printable c then [c]
      else [CHR 0x5C, CHR ''x''] @ hex2 (of_char c))"

definition quote_for :: "string \<Rightarrow> char" where
  "quote_for s = (if CHR 0x27 \<in> set s \<and> CHR 0x22 \<notin> set s then CHR 0x22 else CHR 0x27)"

definition repr_str :: "string \<Rightarrow> string" where
  "repr_str s = quote_for s # concat (map (repr_char (quote_for s)) s) @ [quote_for s]"

fun join :: "string \<Rightarrow> string list \<Rightarrow> string" where
  "join sep [] = []"
| "join sep [x] = x"
| "join sep (x # y # ys) = x @ sep @ join sep (y # ys)"

fun py_repr :: "json \<Rightarrow> string" where
  "py_repr JNull = ''None''"
| "py_repr (JBool b) = (if b then ''True'' else ''False'')"
| "py_repr (JInt i) = str_int i"
| "py_repr (JFloat r) = r"
| "py_repr (JStr s) = repr_str s"
| "py_repr (JArr xs) = ''['' @ join '', '' (map py_repr xs) @ '']''"
| "py_repr (JObj kvs) =
     ''{'' @ join '', '' (map (\<lambda>(k, v). repr_str k @ '': '' @ py_repr v) kvs) @ ''}''"

text \<open>\<^verbatim>\<open>str(x)\<close>, which is also what an f-string substitutes: a string is itself.\<close>

definition py_str :: "json \<Rightarrow> string" where
  "py_str x = (case x of JStr s \<Rightarrow> s | _ \<Rightarrow> py_repr x)"

subsection \<open>The operations on values that the program uses\<close>

fun is_substring :: "string \<Rightarrow> string \<Rightarrow> bool" where
  "is_substring p [] = (p = [])"
| "is_substring p (c # cs) = (take (length p) (c # cs) = p \<or> is_substring p cs)"

text \<open>\<^verbatim>\<open>k in x\<close> for a string \<open>k\<close>: a key of a dict, an element of a list, a substring of
  a string; anything else is not iterable.\<close>

fun py_in :: "string \<Rightarrow> json \<Rightarrow> exn + bool" where
  "py_in k (JObj kvs) = Inr (k \<in> fst ` set kvs)"
| "py_in k (JArr xs) = Inr (JStr k \<in> set xs)"
| "py_in k (JStr s) = Inr (is_substring k s)"
| "py_in k _ = Inl TypeError"

text \<open>\<^verbatim>\<open>x[k]\<close> for a string \<open>k\<close>.\<close>

fun py_getitem :: "json \<Rightarrow> string \<Rightarrow> exn + json" where
  "py_getitem (JObj kvs) k = (case map_of kvs k of None \<Rightarrow> Inl KeyError | Some v \<Rightarrow> Inr v)"
| "py_getitem _ k = Inl TypeError"

text \<open>\<^verbatim>\<open>x[0]\<close>: the key \<open>0\<close> is in no dict built from JSON.\<close>

fun py_first :: "json \<Rightarrow> exn + json" where
  "py_first (JArr []) = Inl IndexError"
| "py_first (JArr (x # xs)) = Inr x"
| "py_first (JStr []) = Inl IndexError"
| "py_first (JStr (c # cs)) = Inr (JStr [c])"
| "py_first (JObj kvs) = Inl KeyError"
| "py_first _ = Inl TypeError"

text \<open>\<^verbatim>\<open>x.get(k, default)\<close>: only a dict has the method.\<close>

fun py_get :: "json \<Rightarrow> string \<Rightarrow> json \<Rightarrow> exn + json" where
  "py_get (JObj kvs) k d = Inr (case map_of kvs k of None \<Rightarrow> d | Some v \<Rightarrow> v)"
| "py_get _ k d = Inl AttributeError"

section \<open>The response normalizer\<close>

text \<open>
  \<^verbatim>\<open>
  def format_response(data: dict) -> str:
      try:
          if "choices" in data and data["choices"]:
              return data["choices"][0].get("message", {}).get("content", "No response content")
          return str(data)
      except Exception:
          return "Received response but couldn't parse it"
  \<close>
  \<open>format_response_try\<close> is the body of the \<^verbatim>\<open>try\<close>; the handler catches every exception.
\<close>

definition format_response_try :: "json \<Rightarrow> exn + json" where
  "format_response_try data =
     try_bind (py_in ''choices'' data) (\<lambda>present.
     try_bind (if present then try_bind (py_getitem data ''choices'') (\<lambda>c. Inr (truthy c))
               else Inr False) (\<lambda>cond.
       if cond then
         try_bind (py_getitem data ''choices'') (\<lambda>choices.
         try_bind (py_first choices) (\<lambda>choice.
         try_bind (py_get choice ''message'' (JObj [])) (\<lambda>message.
         py_get message ''content'' (JStr ''No response content''))))
       else Inr (JStr (py_str data))))"

definition format_response :: "json \<Rightarrow> exn + json" where
  "format_response data =
     (case format_response_try data of
        Inr v \<Rightarrow> Inr v
      | Inl e \<Rightarrow> Inr (JStr ''Received response but couldn't parse it''))"

section \<open>Configuration and the request translator\<close>

text \<open>The entries of \<^verbatim>\<open>CONFIG\<close> and the endpoint URLs built from them.\<close>

definition API_KEY :: string where
  "API_KEY = ''your_API_KEY''"

definition PROJECT_ID :: string where
  "PROJECT_ID = ''your_PROJECT_ID''"

definition DEPLOYMENT_ID :: string where
  "DEPLOYMENT_ID = ''your_DEPLOYMENT_ID''"

definition REGION :: string where
  "REGION = ''us-south''"

definition API_VERSION :: string where
  "API_VERSION = ''2021-05-01''"

definition TOKEN_URL :: string where
  "TOKEN_URL = ''https://iam.cloud.ibm.com/identity/token''"

definition BASE_ENDPOINT :: string where
  "BASE_ENDPOINT = ''https://'' @ REGION @ ''.ml.cloud.ibm.com/ml/v4/deployments/'' @ DEPLOYMENT_ID"

definition REGULAR_ENDPOINT :: string where
  "REGULAR_ENDPOINT = BASE_ENDPOINT @ ''/ai_service?version='' @ API_VERSION"

definition STREAMING_ENDPOINT :: string where
  "STREAMING_ENDPOINT = BASE_ENDPOINT @ ''/ai_service_stream?version='' @ API_VERSION"

text \<open>
  \<^verbatim>\<open>
  def get_watsonx_payload(message: str):
      return {
          "messages": [{"content": message, "role": "user"}],
          "project_id": CONFIG["PROJECT_ID"],
          "parameters": {"max_new_tokens": 200, "temperature": 0.7,
                         "top_p": 0.9, "repetition_penalty": 1.1}
      }
  \<close>
\<close>

definition get_watsonx_payload :: "string \<Rightarrow> json" where
  "get_watsonx_payload message =
     JObj [(''messages'', JArr [JObj [(''content'', JStr message), (''role'', JStr ''user'')]]),
           (''project_id'', JStr PROJECT_ID),
           (''parameters'', JObj [(''max_new_tokens'', JInt 200),
                                  (''temperature'', JFloat ''0.7''),
                                  (''top_p'', JFloat ''0.9''),
                                  (''repetition_penalty'', JFloat ''1.1'')])]"

section \<open>The world outside the process\<close>

text \<open>
  The identity service, the inference service and the clock are not part of the program.
  An environment fixes what each of them answers: the reply to the \<open>k\<close>-th POST to the
  token URL, the reply to the \<open>k\<close>-th POST to an inference endpoint, and the \<open>k\<close>-th
  reading of \<^verbatim>\<open>time.time()\<close> (in whole seconds; the program only compares a reading
  and adds 3600 to it). A POST is answered by a response, or it raises: a
  \<^verbatim>\<open>RequestException\<close> with no response (timeout, connection failure), or an exception
  outside the hierarchy of \<^verbatim>\<open>requests\<close>.

  Two facts depend on the installed libraries and are parameters as well:
  whether the \<^verbatim>\<open>JSONDecodeError\<close> of \<^verbatim>\<open>requests\<close> derives from \<^verbatim>\<open>RequestException\<close>
  (it does from release 2.27 on; it is a \<^verbatim>\<open>ValueError\<close> in every release), and whether
  pydantic turns a number given for a \<^verbatim>\<open>str\<close> field into a string (version 1 does,
  version 2 rejects it).
\<close>

datatype reply = Responds http_response | NetworkFailure | Crashes

record env =
  clock :: "nat \<Rightarrow> int"
  identity :: "nat \<Rightarrow> reply"
  inference :: "nat \<Rightarrow> reply"
  json_error_is_request_exception :: bool
  pydantic_coerces_numbers :: bool

text \<open>
  The state of the process: the module-level \<^verbatim>\<open>token_cache\<close>, and a record of what the
  process has done to the world so far: how often it read the clock and posted to the
  token URL, the requests it sent to the inference service, the backoff waits it slept,
  and how many attempts of \<^verbatim>\<open>get_ibm_token\<close> the retry wrapper started.
\<close>

record cache =
  token :: json
  expires_at :: int

record dispatch =
  endpoint :: string
  headers :: "(string \<times> string) list"
  payload :: json

record world =
  token_cache :: cache
  clock_reads :: nat
  id_posts :: nat
  attempts :: nat
  sleeps :: "nat list"
  sent :: "dispatch list"

text \<open>\<^verbatim>\<open>token_cache = {"token": None, "expires_at": 0}\<close> at start-up.\<close>

definition initial_world :: world where
  "initial_world =
     \<lparr>token_cache = \<lparr>token = JNull, expires_at = 0\<rparr>, clock_reads = 0, id_posts = 0,
      attempts = 0, sleeps = [], sent = []\<rparr>"

definition time_time :: "env \<Rightarrow> world \<Rightarrow> int \<times> world" where
  "time_time env w = (clock env (clock_reads w), w\<lparr>clock_reads := Suc (clock_reads w)\<rparr>)"

definition of_reply :: "reply \<Rightarrow> exn + http_response" where
  "of_reply r =
     (case r of Responds resp \<Rightarrow> Inr resp
      | NetworkFailure \<Rightarrow> Inl RequestException
      | Crashes \<Rightarrow> Inl OtherException)"

definition post_identity :: "env \<Rightarrow> world \<Rightarrow> (exn + http_response) \<times> world" where
  "post_identity env w = (of_reply (identity env (id_posts w)), w\<lparr>id_posts := Suc (id_posts w)\<rparr>)"

definition post_inference ::
  "env \<Rightarrow> string \<Rightarrow> json \<Rightarrow> (string \<times> string) list \<Rightarrow> world \<Rightarrow> (exn + http_response) \<times> world"
where
  "post_inference env url body hdrs w =
     (of_reply (inference env (length (sent w))),
      w\<lparr>sent := sent w @ [\<lparr>endpoint = url, headers = hdrs, payload = body\<rparr>]\<rparr>)"

text \<open>\<^verbatim>\<open>Response.raise_for_status()\<close> raises for the 4xx and 5xx codes only.\<close>

definition raise_for_status :: "http_response \<Rightarrow> exn + unit" where
  "raise_for_status resp =
     (if 400 \<le> status_code resp \<and> status_code resp < 600 then Inl (HTTPError resp) else Inr ())"

definition response_json :: "http_response \<Rightarrow> exn + json" where
  "response_json resp = (case json_of resp of None \<Rightarrow> Inl JSONDecodeError | Some v \<Rightarrow> Inr v)"

text \<open>Which classes an \<^verbatim>\<open>except\<close> clause catches.\<close>

fun is_RequestException :: "env \<Rightarrow> exn \<Rightarrow> bool" where
  "is_RequestException env RequestException = True"
| "is_RequestException env (HTTPError resp) = True"
| "is_RequestException env JSONDecodeError = json_error_is_request_exception env"
| "is_RequestException env _ = False"

fun is_ValueError :: "exn \<Rightarrow> bool" where
  "is_ValueError JSONDecodeError = True"
| "is_ValueError ValidationError = True"
| "is_ValueError _ = False"

section \<open>The credential acquirer\<close>

text \<open>
  \<^verbatim>\<open>
  if token_cache["token"] and token_cache["expires_at"] > time.time():
      return token_cache["token"]
  \<close>
  The guard reads the clock only when the cached token is truthy (\<^verbatim>\<open>and\<close> is lazy).
  \<open>cache_lookup\<close> yields the token that the guarded \<^verbatim>\<open>return\<close> hands back, or nothing.
\<close>

definition cache_lookup :: "env \<Rightarrow> world \<Rightarrow> json option \<times> world" where
  "cache_lookup env w =
     (if truthy (token (token_cache w)) then
        (case time_time env w of (now, w1) \<Rightarrow>
           (if expires_at (token_cache w) > now then Some (token (token_cache w)) else None, w1))
      else (None, w))"

text \<open>
  \<^verbatim>\<open>
  response = requests.post(TOKEN_URL, data=..., headers=..., timeout=10)
  response.raise_for_status()
  token_data = response.json()
  token_cache["token"] = token_data["access_token"]
  token_cache["expires_at"] = time.time() + 3600
  return token_cache["token"]
  \<close>
\<close>

definition read_access_token :: "http_response \<Rightarrow> exn + json" where
  "read_access_token resp =
     try_bind (raise_for_status resp) (\<lambda>_.
     try_bind (response_json resp) (\<lambda>token_data.
     py_getitem token_data ''access_token''))"

definition request_token :: "env \<Rightarrow> world \<Rightarrow> (exn + json) \<times> world" where
  "request_token env w =
     (case post_identity env w of
        (Inl e, w1) \<Rightarrow> (Inl e, w1)
      | (Inr resp, w1) \<Rightarrow>
          (case read_access_token resp of
             Inl e \<Rightarrow> (Inl e, w1)
           | Inr t \<Rightarrow>
               (case time_time env (w1\<lparr>token_cache := (token_cache w1)\<lparr>token := t\<rparr>\<rparr>) of
                  (now, w2) \<Rightarrow>
                    (Inr t, w2\<lparr>token_cache := (token_cache w2)\<lparr>expires_at := now + 3600\<rparr>\<rparr>))))"

definition get_ibm_token_try :: "env \<Rightarrow> world \<Rightarrow> (exn + json) \<times> world" where
  "get_ibm_token_try env w =
     (case cache_lookup env w of
        (Some t, w1) \<Rightarrow> (Inr t, w1)
      | (None, w1) \<Rightarrow> request_token env w1)"

text \<open>
  The handlers of the function body:
  \<^verbatim>\<open>
  except requests.exceptions.RequestException as e:
      raise HTTPException(status_code=503, detail="Authentication service unavailable")
  except Exception as e:
      raise HTTPException(status_code=500, detail="Authentication failed")
  \<close>
\<close>

definition get_ibm_token_except :: "env \<Rightarrow> exn \<Rightarrow> exn" where
  "get_ibm_token_except env e =
     (if is_RequestException env e then HTTPException 503 ''Authentication service unavailable''
      else HTTPException 500 ''Authentication failed'')"

definition get_ibm_token_attempt :: "env \<Rightarrow> world \<Rightarrow> (exn + json) \<times> world" where
  "get_ibm_token_attempt env w =
     (case get_ibm_token_try env w of
        (Inr t, w1) \<Rightarrow> (Inr t, w1)
      | (Inl e, w1) \<Rightarrow> (Inl (get_ibm_token_except env e), w1))"

text \<open>
  The decorator
  \<^verbatim>\<open>@retry(stop=stop_after_attempt(3), wait=wait_exponential(multiplier=1, min=4, max=10), reraise=True)\<close>
  of the tenacity library: it calls the function; when the call raises and the number of
  the attempt is below 3 it sleeps \<^verbatim>\<open>max(max(0, min), min(multiplier * 2 ** (attempt_number - 1), max))\<close>
  seconds and calls again; after the third failed attempt it raises what that attempt
  raised. Attempts are numbered from 1.
\<close>

definition wait_exponential :: "nat \<Rightarrow> nat" where
  "wait_exponential attempt_number = max (max 0 4) (min (1 * 2 ^ (attempt_number - 1)) 10)"

definition begin_attempt :: "world \<Rightarrow> world" where
  "begin_attempt w = w\<lparr>attempts := Suc (attempts w)\<rparr>"

definition sleep :: "nat \<Rightarrow> world \<Rightarrow> world" where
  "sleep seconds w = w\<lparr>sleeps := sleeps w @ [seconds]\<rparr>"

function get_ibm_token_retry :: "env \<Rightarrow> nat \<Rightarrow> world \<Rightarrow> (exn + json) \<times> world" where
  "get_ibm_token_retry env attempt_number w =
     (case get_ibm_token_attempt env (begin_attempt w) of
        (Inr t, w1) \<Rightarrow> (Inr t, w1)
      | (Inl e, w1) \<Rightarrow>
          if attempt_number \<ge> 3 then (Inl e, w1)
          else get_ibm_token_retry env (Suc attempt_number)
                 (sleep (wait_exponential attempt_number) w1))"
  by pat_completeness auto
termination
  by (relation "measure (\<lambda>(env, attempt_number, w). 3 - attempt_number)") auto

declare get_ibm_token_retry.simps [simp del]

definition get_ibm_token :: "env \<Rightarrow> world \<Rightarrow> (exn + json) \<times> world" where
  "get_ibm_token env w = get_ibm_token_retry env 1 w"

section \<open>The health reporter\<close>

text \<open>
  \<^verbatim>\<open>
  try:
      token = get_ibm_token()
      return {"status": "healthy", "api_ready": bool(token)}
  except Exception as e:
      return {"status": "unhealthy", "api_ready": False}
  \<close>
\<close>

record HealthResponse =
  health_status :: string
  api_ready :: bool

definition health_check :: "env \<Rightarrow> world \<Rightarrow> (exn + HealthResponse) \<times> world" where
  "health_check env w =
     (case get_ibm_token env w of
        (Inr t, w1) \<Rightarrow> (Inr \<lparr>health_status = ''healthy'', api_ready = truthy t\<rparr>, w1)
      | (Inl e, w1) \<Rightarrow> (Inr \<lparr>health_status = ''unhealthy'', api_ready = False\<rparr>, w1))"

section \<open>The chat gateway\<close>

record ChatMessage =
  message :: string
  stream :: bool

record ChatResponse =
  response :: string
  status :: string

text \<open>\<^verbatim>\<open>str.strip()\<close>: the whitespace code points below 256.\<close>

definition is_space :: "char \<Rightarrow> bool" where
  "is_space c =
     (9 \<le> (of_char c :: nat) \<and> (of_char c :: nat) \<le> 13
      \<or> 28 \<le> (of_char c :: nat) \<and> (of_char c :: nat) \<le> 32
      \<or> (of_char c :: nat) = 133 \<or> (of_char c :: nat) = 160)"

definition strip :: "string \<Rightarrow> string" where
  "strip s = rev (dropWhile is_space (rev (dropWhile is_space s)))"

text \<open>
  The headers of a dispatch. Assigning \<^verbatim>\<open>headers["Authorization"]\<close> again keeps the
  order of the keys, so the headers of the second dispatch are these for the new token.
\<close>

definition bearer_headers :: "json \<Rightarrow> (string \<times> string) list" where
  "bearer_headers t =
     [(''Authorization'', ''Bearer '' @ py_str t),
      (''Content-Type'', ''application/json''),
      (''Accept'', ''application/json'')]"

text \<open>
  \<^verbatim>\<open>
  try:
      token = get_ibm_token()
      headers = {"Authorization": f"Bearer {token}", ...}
  except Exception as e:
      raise HTTPException(status_code=401, detail="Authentication failed")
  \<close>
\<close>

definition authenticate :: "env \<Rightarrow> world \<Rightarrow> (exn + (string \<times> string) list) \<times> world" where
  "authenticate env w =
     (case get_ibm_token env w of
        (Inr t, w1) \<Rightarrow> (Inr (bearer_headers t), w1)
      | (Inl e, w1) \<Rightarrow> (Inl (HTTPException 401 ''Authentication failed''), w1))"

text \<open>
  The body of the \<^verbatim>\<open>try\<close> around the API call:
  \<^verbatim>\<open>
  response = requests.post(endpoint, json=payload, headers=headers, timeout=30)
  if response.status_code == 401:
      token_cache["token"] = None
      token = get_ibm_token()
      headers["Authorization"] = f"Bearer {token}"
      response = requests.post(endpoint, json=payload, headers=headers, timeout=30)
  response.raise_for_status()
  \<close>
\<close>

definition invalidate :: "world \<Rightarrow> world" where
  "invalidate w = w\<lparr>token_cache := (token_cache w)\<lparr>token := JNull\<rparr>\<rparr>"

definition checked :: "http_response \<Rightarrow> exn + http_response" where
  "checked resp = try_bind (raise_for_status resp) (\<lambda>_. Inr resp)"

definition call_api ::
  "env \<Rightarrow> string \<Rightarrow> json \<Rightarrow> (string \<times> string) list \<Rightarrow> world \<Rightarrow> (exn + http_response) \<times> world"
where
  "call_api env url body hdrs w =
     (case post_inference env url body hdrs w of
        (Inl e, w1) \<Rightarrow> (Inl e, w1)
      | (Inr resp, w1) \<Rightarrow>
          if status_code resp = 401 then
            (case get_ibm_token env (invalidate w1) of
               (Inl e, w2) \<Rightarrow> (Inl e, w2)
             | (Inr t, w2) \<Rightarrow>
                 (case post_inference env url body (bearer_headers t) w2 of
                    (Inl e, w3) \<Rightarrow> (Inl e, w3)
                  | (Inr resp2, w3) \<Rightarrow> (checked resp2, w3)))
          else (checked resp, w1))"

text \<open>
  The handler of \<^verbatim>\<open>HTTPError\<close>:
  \<^verbatim>\<open>
  error_detail = f"HTTP Error: {e.response.status_code}"
  if e.response.text:
      try:
          error_data = e.response.json()
          error_detail += f" - {error_data.get('errors', [{}])[0].get('message', 'Unknown error')}"
      except ValueError:
          error_detail += f" - {e.response.text}"
  raise HTTPException(status_code=502, detail=error_detail)
  \<close>
  An exception of the inner \<^verbatim>\<open>try\<close> that is no \<^verbatim>\<open>ValueError\<close> leaves the handler.
\<close>

definition upstream_message :: "http_response \<Rightarrow> exn + string" where
  "upstream_message resp =
     try_bind (response_json resp) (\<lambda>error_data.
     try_bind (py_get error_data ''errors'' (JArr [JObj []])) (\<lambda>errors.
     try_bind (py_first errors) (\<lambda>first.
     try_bind (py_get first ''message'' (JStr ''Unknown error'')) (\<lambda>m.
     Inr ('' - '' @ py_str m)))))"

definition error_detail :: "http_response \<Rightarrow> exn + string" where
  "error_detail resp =
     (if text_of resp \<noteq> [] then
        (case upstream_message resp of
           Inr m \<Rightarrow> Inr (''HTTP Error: '' @ str_int (int (status_code resp)) @ m)
         | Inl e \<Rightarrow>
             if is_ValueError e
             then Inr (''HTTP Error: '' @ str_int (int (status_code resp)) @ '' - '' @ text_of resp)
             else Inl e)
      else Inr (''HTTP Error: '' @ str_int (int (status_code resp))))"

text \<open>
  The handlers of the API call, in the order of the source: \<^verbatim>\<open>HTTPError\<close> first, then
  any other \<^verbatim>\<open>RequestException\<close>; every other exception passes through.
\<close>

definition call_api_except :: "env \<Rightarrow> exn \<Rightarrow> exn" where
  "call_api_except env e =
     (case e of
        HTTPError resp \<Rightarrow>
          (case error_detail resp of Inr d \<Rightarrow> HTTPException 502 d | Inl e' \<Rightarrow> e')
      | _ \<Rightarrow>
          if is_RequestException env e then HTTPException 503 ''Service unavailable'' else e)"

text \<open>
  \<^verbatim>\<open>
  try:
      data = response.json()
      formatted_response = format_response(data)
      return ChatResponse(response=formatted_response, status="success")
  except ValueError as e:
      raise HTTPException(status_code=502, detail="Invalid response from service")
  \<close>
  \<open>new_ChatResponse\<close> is pydantic's validation of the \<^verbatim>\<open>response: str\<close> field; its
  \<^verbatim>\<open>ValidationError\<close> is a \<^verbatim>\<open>ValueError\<close>.
\<close>

definition new_ChatResponse :: "env \<Rightarrow> json \<Rightarrow> exn + ChatResponse" where
  "new_ChatResponse env v =
     (case v of
        JStr s \<Rightarrow> Inr \<lparr>response = s, status = ''success''\<rparr>
      | JInt i \<Rightarrow>
          if pydantic_coerces_numbers env then Inr \<lparr>response = py_str v, status = ''success''\<rparr>
          else Inl ValidationError
      | JFloat r \<Rightarrow>
          if pydantic_coerces_numbers env then Inr \<lparr>response = py_str v, status = ''success''\<rparr>
          else Inl ValidationError
      | JBool b \<Rightarrow>
          if pydantic_coerces_numbers env then Inr \<lparr>response = py_str v, status = ''success''\<rparr>
          else Inl ValidationError
      | _ \<Rightarrow> Inl ValidationError)"

definition process_response :: "env \<Rightarrow> http_response \<Rightarrow> exn + ChatResponse" where
  "process_response env resp =
     (case try_bind (response_json resp) (\<lambda>data.
           try_bind (format_response data) (\<lambda>formatted_response.
           new_ChatResponse env formatted_response)) of
        Inr r \<Rightarrow> Inr r
      | Inl e \<Rightarrow>
          if is_ValueError e then Inl (HTTPException 502 ''Invalid response from service'')
          else Inl e)"

text \<open>
  The body of the outer \<^verbatim>\<open>try\<close> of \<^verbatim>\<open>chat\<close>, with
  \<^verbatim>\<open>endpoint = STREAMING_ENDPOINT if message.stream else REGULAR_ENDPOINT\<close>.
\<close>

definition select_endpoint :: "ChatMessage \<Rightarrow> string" where
  "select_endpoint msg = (if stream msg then STREAMING_ENDPOINT else REGULAR_ENDPOINT)"

definition chat_try :: "env \<Rightarrow> ChatMessage \<Rightarrow> world \<Rightarrow> (exn + ChatResponse) \<times> world" where
  "chat_try env msg w =
     (if strip (message msg) = [] then (Inl (HTTPException 400 ''Message cannot be empty''), w)
      else
        (case authenticate env w of
           (Inl e, w1) \<Rightarrow> (Inl e, w1)
         | (Inr hdrs, w1) \<Rightarrow>
             (case call_api env (select_endpoint msg) (get_watsonx_payload (message msg)) hdrs w1 of
                (Inl e, w2) \<Rightarrow> (Inl (call_api_except env e), w2)
              | (Inr resp, w2) \<Rightarrow> (process_response env resp, w2))))"

text \<open>
  \<^verbatim>\<open>
  except HTTPException:
      raise
  except Exception as e:
      raise HTTPException(status_code=500, detail="Internal server error")
  \<close>
\<close>

definition chat_except :: "exn \<Rightarrow> exn" where
  "chat_except e =
     (case e of
        HTTPException code detail \<Rightarrow> HTTPException code detail
      | _ \<Rightarrow> HTTPException 500 ''Internal server error'')"

definition chat :: "env \<Rightarrow> ChatMessage \<Rightarrow> world \<Rightarrow> (exn + ChatResponse) \<times> world" where
  "chat env msg w =
     (case chat_try env msg w of
        (Inr r, w1) \<Rightarrow> (Inr r, w1)
      | (Inl e, w1) \<Rightarrow> (Inl (chat_except e), w1))"

section \<open>Concrete runs\<close>

text \<open>
  Replies and environments for the concrete runs below. The clock starts at 1000 and
  advances by one second per reading; the libraries are the current ones.
\<close>

definition token_reply :: "string \<Rightarrow> reply" where
  "token_reply t =
     Responds \<lparr>status_code = 200, text_of = ''{...}'',
               json_of = Some (JObj [(''access_token'', JStr t), (''expires_in'', JInt 3600)])\<rparr>"

definition status_reply :: "nat \<Rightarrow> reply" where
  "status_reply code = Responds \<lparr>status_code = code, text_of = [], json_of = None\<rparr>"

definition answer_reply :: "string \<Rightarrow> reply" where
  "answer_reply a =
     Responds \<lparr>status_code = 200, text_of = ''{...}'',
               json_of = Some (JObj [(''choices'', JArr [JObj [(''message'',
                            JObj [(''content'', JStr a)])]])])\<rparr>"

definition services :: "(nat \<Rightarrow> reply) \<Rightarrow> (nat \<Rightarrow> reply) \<Rightarrow> env" where
  "services ident infer =
     \<lparr>clock = (\<lambda>k. 1000 + int k), identity = ident, inference = infer,
      json_error_is_request_exception = True, pydantic_coerces_numbers = False\<rparr>"

text \<open>The identity service is unreachable.\<close>

definition env_identity_down :: env where
  "env_identity_down = services (\<lambda>k. NetworkFailure) (\<lambda>k. answer_reply ''hi'')"

text \<open>The identity service fails twice, then issues a token.\<close>

definition env_identity_flaky :: env where
  "env_identity_flaky =
     services (\<lambda>k. if k < 2 then NetworkFailure else token_reply ''t1'') (\<lambda>k. answer_reply ''hi'')"

text \<open>The identity service answers with an HTTP error status.\<close>

definition env_identity_500 :: env where
  "env_identity_500 = services (\<lambda>k. status_reply 500) (\<lambda>k. answer_reply ''hi'')"

text \<open>The identity service issues an empty token.\<close>

definition env_empty_token :: env where
  "env_empty_token = services (\<lambda>k. token_reply []) (\<lambda>k. answer_reply ''hi'')"

text \<open>The inference service rejects the first token: the first dispatch is answered 401,
  the second with a reply.\<close>

definition env_retry_ok :: env where
  "env_retry_ok =
     services (\<lambda>k. if k = 0 then token_reply ''t1'' else token_reply ''t2'')
              (\<lambda>k. if k = 0 then status_reply 401 else answer_reply ''hi'')"

text \<open>The inference service answers 401 to every dispatch.\<close>

definition env_always_401 :: env where
  "env_always_401 =
     services (\<lambda>k. if k = 0 then token_reply ''t1'' else token_reply ''t2'')
              (\<lambda>k. status_reply 401)"

text \<open>The first dispatch is answered 401, and the identity service is unreachable from
  then on.\<close>

definition env_reauth_down :: env where
  "env_reauth_down =
     services (\<lambda>k. if k = 0 then token_reply ''t1'' else NetworkFailure)
              (\<lambda>k. status_reply 401)"

text \<open>The first dispatch is answered 401, and the inference service is unreachable from
  then on.\<close>

definition env_second_dispatch_down :: env where
  "env_second_dispatch_down =
     services (\<lambda>k. if k = 0 then token_reply ''t1'' else token_reply ''t2'')
              (\<lambda>k. if k = 0 then status_reply 401 else NetworkFailure)"

text \<open>The inference service is unreachable.\<close>

definition env_inference_down :: env where
  "env_inference_down = services (\<lambda>k. token_reply ''t1'') (\<lambda>k. NetworkFailure)"

definition hello :: ChatMessage where
  "hello = \<lparr>message = ''hello'', stream = False\<rparr>"

text \<open>The world at start-up, but for the content of the cache.\<close>

definition cached_world :: "json \<Rightarrow> int \<Rightarrow> world" where
  "cached_world t e = initial_world\<lparr>token_cache := \<lparr>token = t, expires_at = e\<rparr>\<rparr>"

section \<open>Notions used in the statements\<close>

text \<open>The guard of the cached return of \<^verbatim>\<open>get_ibm_token\<close>, for a reading \<open>now\<close> of the clock.\<close>

definition cache_valid :: "cache \<Rightarrow> int \<Rightarrow> bool" where
  "cache_valid c now = (truthy (token c) \<and> expires_at c > now)"

text \<open>What one request to the identity service yields when the \<open>k\<close>-th reply answers it:
  the access token, or the exception raised on the way to it.\<close>

definition identity_result :: "env \<Rightarrow> nat \<Rightarrow> exn + json" where
  "identity_result env k = try_bind (of_reply (identity env k)) read_access_token"

text \<open>The request that \<^verbatim>\<open>chat\<close> sends for a message, under given headers.\<close>

definition dispatch_of :: "ChatMessage \<Rightarrow> (string \<times> string) list \<Rightarrow> dispatch" where
  "dispatch_of msg hdrs =
     \<lparr>endpoint = select_endpoint msg, headers = hdrs,
      payload = get_watsonx_payload (message msg)\<rparr>"

section \<open>The credential acquirer: attempts and retries\<close>

lemma attempt_frame:
  "get_ibm_token_attempt env w = (r, w') \<Longrightarrow>
     sent w' = sent w \<and> sleeps w' = sleeps w \<and> attempts w' = attempts w
     \<and> id_posts w \<le> id_posts w' \<and> id_posts w' \<le> Suc (id_posts w)"
  by (auto simp: get_ibm_token_attempt_def get_ibm_token_try_def cache_lookup_def
      request_token_def post_identity_def time_time_def
      split: if_splits prod.splits sum.splits option.splits)

lemma attempt_errors:
  "get_ibm_token_attempt env w = (Inl e, w') \<Longrightarrow>
     e = HTTPException 503 ''Authentication service unavailable''
     \<or> e = HTTPException 500 ''Authentication failed''"
  by (auto simp: get_ibm_token_attempt_def get_ibm_token_except_def
      split: prod.splits sum.splits if_splits)

lemma attempt_hit:
  assumes "cache_valid (token_cache w) (clock env (clock_reads w))"
  shows "get_ibm_token_attempt env w =
           (Inr (token (token_cache w)), w\<lparr>clock_reads := Suc (clock_reads w)\<rparr>)"
  using assms
  by (simp add: get_ibm_token_attempt_def get_ibm_token_try_def cache_lookup_def
      time_time_def cache_valid_def)

text \<open>
  An attempt that finds no valid token in the cache sends one request. When the request
  fails the cache is as before; the clock was read once if there was a token to check.
\<close>

lemma attempt_miss_fails:
  assumes "\<not> cache_valid (token_cache w) (clock env (clock_reads w))"
    and "identity_result env (id_posts w) = Inl e"
  shows "get_ibm_token_attempt env w =
           (Inl (get_ibm_token_except env e),
            w\<lparr>clock_reads := (if truthy (token (token_cache w)) then Suc (clock_reads w)
                               else clock_reads w),
              id_posts := Suc (id_posts w)\<rparr>)"
  using assms
  by (auto simp: get_ibm_token_attempt_def get_ibm_token_try_def cache_lookup_def
      request_token_def post_identity_def time_time_def cache_valid_def identity_result_def
      try_bind_def split: sum.splits)

lemma attempt_miss_succeeds:
  assumes "\<not> cache_valid (token_cache w) (clock env (clock_reads w))"
    and "identity_result env (id_posts w) = Inr t"
  shows "get_ibm_token_attempt env w =
           (Inr t,
            w\<lparr>clock_reads := (if truthy (token (token_cache w)) then Suc (Suc (clock_reads w))
                               else Suc (clock_reads w)),
              id_posts := Suc (id_posts w),
              token_cache := \<lparr>token = t, expires_at =
                 clock env (if truthy (token (token_cache w)) then Suc (clock_reads w)
                            else clock_reads w) + 3600\<rparr>\<rparr>)"
  using assms
  by (auto simp: get_ibm_token_attempt_def get_ibm_token_try_def cache_lookup_def
      request_token_def post_identity_def time_time_def cache_valid_def identity_result_def
      try_bind_def split: sum.splits)

lemma retry_last:
  "3 \<le> n \<Longrightarrow> get_ibm_token_retry env n w = get_ibm_token_attempt env (begin_attempt w)"
  by (subst get_ibm_token_retry.simps) (simp split: prod.splits sum.splits)

lemma retry_step:
  "n < 3 \<Longrightarrow> get_ibm_token_retry env n w =
     (case get_ibm_token_attempt env (begin_attempt w) of
        (Inr t, w1) \<Rightarrow> (Inr t, w1)
      | (Inl e, w1) \<Rightarrow> get_ibm_token_retry env (Suc n) (sleep (wait_exponential n) w1))"
  by (subst get_ibm_token_retry.simps) (simp split: prod.splits sum.splits)

lemma wait_exponential_values: "wait_exponential 1 = 4" "wait_exponential 2 = 4"
  by (simp_all add: wait_exponential_def)

lemma get_ibm_token_unfold:
  "get_ibm_token env w =
     (case get_ibm_token_attempt env (begin_attempt w) of
        (Inr t, w1) \<Rightarrow> (Inr t, w1)
      | (Inl e1, w1) \<Rightarrow>
          (case get_ibm_token_attempt env (begin_attempt (sleep 4 w1)) of
             (Inr t, w2) \<Rightarrow> (Inr t, w2)
           | (Inl e2, w2) \<Rightarrow> get_ibm_token_attempt env (begin_attempt (sleep 4 w2))))"
proof -
  have w1: "wait_exponential (Suc 0) = 4" and w2: "wait_exponential (Suc (Suc 0)) = 4"
    by (simp_all add: wait_exponential_def)
  have "get_ibm_token_retry env (Suc (Suc (Suc 0))) =
          (\<lambda>w. get_ibm_token_attempt env (begin_attempt w))"
    by (rule ext) (simp add: retry_last)
  then show ?thesis
    by (simp add: get_ibm_token_def retry_step [of "Suc 0"] retry_step [of "Suc (Suc 0)"] w1 w2
        split: prod.splits sum.splits)
qed

lemma get_ibm_token_frame:
  "get_ibm_token env w = (r, w') \<Longrightarrow>
     sent w' = sent w \<and> attempts w < attempts w' \<and> attempts w' \<le> attempts w + 3
     \<and> id_posts w \<le> id_posts w' \<and> id_posts w' \<le> id_posts w + 3"
  unfolding get_ibm_token_unfold
  by (auto simp: begin_attempt_def sleep_def split: prod.splits sum.splits dest!: attempt_frame)

lemma get_ibm_token_errors:
  "get_ibm_token env w = (Inl e, w') \<Longrightarrow>
     e = HTTPException 503 ''Authentication service unavailable''
     \<or> e = HTTPException 500 ''Authentication failed''"
  unfolding get_ibm_token_unfold
  by (auto split: prod.splits sum.splits dest: attempt_errors)

text \<open>
  Two failed requests in a row, with no valid token in the cache at any of the three
  readings of the clock: the call is decided by a third attempt, made after two waits of
  4 seconds on a world whose cache is untouched.
\<close>

lemma fails_twice:
  assumes c0: "\<not> cache_valid (token_cache w) (clock env (clock_reads w))"
    and c1: "\<not> cache_valid (token_cache w) (clock env (clock_reads w + 1))"
    and c2: "\<not> cache_valid (token_cache w) (clock env (clock_reads w + 2))"
    and f0: "identity_result env (id_posts w) = Inl e1"
    and f1: "identity_result env (id_posts w + 1) = Inl e2"
  shows "\<exists>w2. get_ibm_token env w = get_ibm_token_attempt env w2
           \<and> \<not> cache_valid (token_cache w2) (clock env (clock_reads w2))
           \<and> token_cache w2 = token_cache w
           \<and> id_posts w2 = id_posts w + 2 \<and> attempts w2 = attempts w + 3
           \<and> sleeps w2 = sleeps w @ [4, 4] \<and> sent w2 = sent w"
proof -
  let ?miss = "\<lambda>v. v\<lparr>clock_reads := (if truthy (token (token_cache v)) then Suc (clock_reads v)
                                       else clock_reads v),
                      id_posts := Suc (id_posts v)\<rparr>"
  let ?a1 = "begin_attempt w"
  let ?a2 = "begin_attempt (sleep 4 (?miss ?a1))"
  let ?a3 = "begin_attempt (sleep 4 (?miss ?a2))"
  have s1: "\<not> cache_valid (token_cache ?a1) (clock env (clock_reads ?a1))"
    using c0 by (simp add: cache_valid_def begin_attempt_def)
  have s2: "\<not> cache_valid (token_cache ?a2) (clock env (clock_reads ?a2))"
    using c1 by (simp add: cache_valid_def begin_attempt_def sleep_def)
  have s3: "\<not> cache_valid (token_cache ?a3) (clock env (clock_reads ?a3))"
    using c2 by (simp add: cache_valid_def begin_attempt_def sleep_def)
  have "identity_result env (id_posts ?a1) = Inl e1"
    using f0 by (simp add: begin_attempt_def)
  with s1 have r1: "get_ibm_token_attempt env ?a1 = (Inl (get_ibm_token_except env e1), ?miss ?a1)"
    by (rule attempt_miss_fails)
  have "identity_result env (id_posts ?a2) = Inl e2"
    using f1 by (simp add: begin_attempt_def sleep_def)
  with s2 have r2: "get_ibm_token_attempt env ?a2 = (Inl (get_ibm_token_except env e2), ?miss ?a2)"
    by (rule attempt_miss_fails)
  have "get_ibm_token env w = get_ibm_token_attempt env ?a3"
    by (simp add: get_ibm_token_unfold r1 r2)
  moreover have "token_cache ?a3 = token_cache w \<and> id_posts ?a3 = id_posts w + 2
      \<and> attempts ?a3 = attempts w + 3 \<and> sleeps ?a3 = sleeps w @ [4, 4] \<and> sent ?a3 = sent w"
    by (simp add: begin_attempt_def sleep_def)
  ultimately show ?thesis using s3 by blast
qed

text \<open>The two runs that the concrete examples need, from a world with no cached token.\<close>

lemma get_ibm_token_first_try:
  assumes "\<not> truthy (token (token_cache w))" and "identity_result env (id_posts w) = Inr t"
  shows "get_ibm_token env w =
           (Inr t, w\<lparr>token_cache := \<lparr>token = t, expires_at = clock env (clock_reads w) + 3600\<rparr>,
                     clock_reads := Suc (clock_reads w), id_posts := Suc (id_posts w),
                     attempts := Suc (attempts w)\<rparr>)"
proof -
  have "\<not> cache_valid (token_cache (begin_attempt w)) (clock env (clock_reads (begin_attempt w)))"
    using assms(1) by (simp add: cache_valid_def begin_attempt_def)
  moreover have "identity_result env (id_posts (begin_attempt w)) = Inr t"
    using assms(2) by (simp add: begin_attempt_def)
  ultimately show ?thesis
    using assms(1)
    by (simp add: get_ibm_token_unfold attempt_miss_succeeds begin_attempt_def)
qed

lemma get_ibm_token_exhausted:
  assumes "\<not> truthy (token (token_cache w))"
    and "identity_result env (id_posts w) = Inl e1"
    and "identity_result env (id_posts w + 1) = Inl e2"
    and "identity_result env (id_posts w + 2) = Inl e3"
  shows "get_ibm_token env w =
           (Inl (get_ibm_token_except env e3),
            w\<lparr>id_posts := id_posts w + 3, attempts := attempts w + 3,
              sleeps := sleeps w @ [4, 4]\<rparr>)"
proof -
  have nv: "\<not> cache_valid (token_cache v) now" if "token_cache v = token_cache w" for v now
    using assms(1) that by (simp add: cache_valid_def)
  let ?a1 = "begin_attempt w"
  let ?w1 = "?a1\<lparr>id_posts := Suc (id_posts w)\<rparr>"
  let ?a2 = "begin_attempt (sleep 4 ?w1)"
  let ?w2 = "?a2\<lparr>id_posts := Suc (Suc (id_posts w))\<rparr>"
  let ?a3 = "begin_attempt (sleep 4 ?w2)"
  let ?w3 = "?a3\<lparr>id_posts := Suc (Suc (Suc (id_posts w)))\<rparr>"
  have r1: "get_ibm_token_attempt env ?a1 = (Inl (get_ibm_token_except env e1), ?w1)"
    using attempt_miss_fails [of ?a1 env e1] nv [of ?a1] assms(1,2)
    by (simp add: begin_attempt_def)
  have r2: "get_ibm_token_attempt env ?a2 = (Inl (get_ibm_token_except env e2), ?w2)"
    using attempt_miss_fails [of ?a2 env e2] nv [of ?a2] assms(1,3)
    by (simp add: begin_attempt_def sleep_def)
  have r3: "get_ibm_token_attempt env ?a3 = (Inl (get_ibm_token_except env e3), ?w3)"
    using attempt_miss_fails [of ?a3 env e3] nv [of ?a3] assms(1,4)
    by (simp add: begin_attempt_def sleep_def)
  show ?thesis
    by (simp add: get_ibm_token_unfold r1 r2 r3) (simp add: begin_attempt_def sleep_def)
qed


lemma identity_result_values:
  "identity_result env_identity_down k = Inl RequestException"
  "identity_result env_identity_500 k = Inl (HTTPError \<lparr>status_code = 500, text_of = [], json_of = None\<rparr>)"
  "identity_result env_empty_token k = Inr (JStr [])"
  "identity_result env_identity_flaky k = (if k < 2 then Inl RequestException else Inr (JStr ''t1''))"
  "identity_result env_retry_ok k = Inr (JStr (if k = 0 then ''t1'' else ''t2''))"
  "identity_result env_always_401 k = Inr (JStr (if k = 0 then ''t1'' else ''t2''))"
  "identity_result env_reauth_down k = (if k = 0 then Inr (JStr ''t1'') else Inl RequestException)"
  "identity_result env_inference_down k = Inr (JStr ''t1'')"
  by (simp_all add: identity_result_def env_identity_down_def env_identity_500_def
      env_empty_token_def env_identity_flaky_def env_retry_ok_def env_always_401_def
      env_reauth_down_def env_inference_down_def services_def token_reply_def status_reply_def
      of_reply_def read_access_token_def raise_for_status_def response_json_def try_bind_def)

lemma initial_world_fields:
  "token (token_cache initial_world) = JNull" "expires_at (token_cache initial_world) = 0"
  "clock_reads initial_world = 0" "id_posts initial_world = 0" "attempts initial_world = 0"
  "sleeps initial_world = []" "sent initial_world = []"
  by (simp_all add: initial_world_def)

section \<open>The claims about the credential acquirer\<close>

text \<open>
  C2. One call of \<^verbatim>\<open>get_ibm_token\<close> makes at least one and at most three attempts. It is the
  first attempt when that succeeds; otherwise the process sleeps
  \<open>wait_exponential 1 = 4\<close> seconds and the call is the second attempt when that succeeds;
  otherwise it sleeps \<open>wait_exponential 2 = 4\<close> seconds and the call is the third attempt,
  whatever that returns or raises. When no valid token is cached and the identity
  service fails the first two requests, a third request is sent: its token is returned
  (and cached) after exactly three attempts and three requests, and its failure is
  raised as the third attempt raised it.
\<close>

theorem get_ibm_token_three_attempts:
  "(attempts w < attempts (snd (get_ibm_token env w))
      \<and> attempts (snd (get_ibm_token env w)) \<le> attempts w + 3
      \<and> id_posts (snd (get_ibm_token env w)) \<le> id_posts w + 3)
   \<and> get_ibm_token env w =
       (case get_ibm_token_attempt env (begin_attempt w) of
          (Inr t, w1) \<Rightarrow> (Inr t, w1)
        | (Inl e1, w1) \<Rightarrow>
            (case get_ibm_token_attempt env (begin_attempt (sleep (wait_exponential 1) w1)) of
               (Inr t, w2) \<Rightarrow> (Inr t, w2)
             | (Inl e2, w2) \<Rightarrow>
                 get_ibm_token_attempt env (begin_attempt (sleep (wait_exponential 2) w2))))
   \<and> wait_exponential 1 = 4 \<and> wait_exponential 2 = 4
   \<and> ((\<forall>k<3. \<not> cache_valid (token_cache w) (clock env (clock_reads w + k)))
        \<and> (\<exists>e. identity_result env (id_posts w) = Inl e)
        \<and> (\<exists>e. identity_result env (id_posts w + 1) = Inl e) \<longrightarrow>
        (\<forall>t. identity_result env (id_posts w + 2) = Inr t \<longrightarrow>
           fst (get_ibm_token env w) = Inr t
           \<and> token (token_cache (snd (get_ibm_token env w))) = t
           \<and> attempts (snd (get_ibm_token env w)) = attempts w + 3
           \<and> id_posts (snd (get_ibm_token env w)) = id_posts w + 3
           \<and> sleeps (snd (get_ibm_token env w)) = sleeps w @ [4, 4])
        \<and> (\<forall>e. identity_result env (id_posts w + 2) = Inl e \<longrightarrow>
           fst (get_ibm_token env w) = Inl (get_ibm_token_except env e)
           \<and> token_cache (snd (get_ibm_token env w)) = token_cache w
           \<and> attempts (snd (get_ibm_token env w)) = attempts w + 3
           \<and> id_posts (snd (get_ibm_token env w)) = id_posts w + 3
           \<and> sleeps (snd (get_ibm_token env w)) = sleeps w @ [4, 4]))"
proof (intro conjI impI)
  show "attempts w < attempts (snd (get_ibm_token env w))"
    and "attempts (snd (get_ibm_token env w)) \<le> attempts w + 3"
    and "id_posts (snd (get_ibm_token env w)) \<le> id_posts w + 3"
    using get_ibm_token_frame [of env w "fst (get_ibm_token env w)" "snd (get_ibm_token env w)"]
    by simp_all
next
  show "get_ibm_token env w =
       (case get_ibm_token_attempt env (begin_attempt w) of
          (Inr t, w1) \<Rightarrow> (Inr t, w1)
        | (Inl e1, w1) \<Rightarrow>
            (case get_ibm_token_attempt env (begin_attempt (sleep (wait_exponential 1) w1)) of
               (Inr t, w2) \<Rightarrow> (Inr t, w2)
             | (Inl e2, w2) \<Rightarrow>
                 get_ibm_token_attempt env (begin_attempt (sleep (wait_exponential 2) w2))))"
    by (simp only: wait_exponential_values get_ibm_token_unfold)
next
  show "wait_exponential 1 = 4" and "wait_exponential 2 = 4"
    by (rule wait_exponential_values)+
next
  assume h: "(\<forall>k<3. \<not> cache_valid (token_cache w) (clock env (clock_reads w + k)))
        \<and> (\<exists>e. identity_result env (id_posts w) = Inl e)
        \<and> (\<exists>e. identity_result env (id_posts w + 1) = Inl e)"
  then obtain e1 e2 where f: "identity_result env (id_posts w) = Inl e1"
      "identity_result env (id_posts w + 1) = Inl e2"
    by blast
  from h have a: "\<not> cache_valid (token_cache w) (clock env (clock_reads w + k))" if "k < 3" for k
    using that by blast
  have c: "\<not> cache_valid (token_cache w) (clock env (clock_reads w))"
      "\<not> cache_valid (token_cache w) (clock env (clock_reads w + 1))"
      "\<not> cache_valid (token_cache w) (clock env (clock_reads w + 2))"
    using a [of 0] a [of 1] a [of 2] by simp_all
  from fails_twice [OF c f] obtain w2 where
    run: "get_ibm_token env w = get_ibm_token_attempt env w2"
    and miss: "\<not> cache_valid (token_cache w2) (clock env (clock_reads w2))"
    and same: "token_cache w2 = token_cache w" "id_posts w2 = id_posts w + 2"
      "attempts w2 = attempts w + 3" "sleeps w2 = sleeps w @ [4, 4]"
    by blast
  show "\<forall>t. identity_result env (id_posts w + 2) = Inr t \<longrightarrow>
           fst (get_ibm_token env w) = Inr t
           \<and> token (token_cache (snd (get_ibm_token env w))) = t
           \<and> attempts (snd (get_ibm_token env w)) = attempts w + 3
           \<and> id_posts (snd (get_ibm_token env w)) = id_posts w + 3
           \<and> sleeps (snd (get_ibm_token env w)) = sleeps w @ [4, 4]"
  proof (intro allI impI)
    fix t assume "identity_result env (id_posts w + 2) = Inr t"
    then have "identity_result env (id_posts w2) = Inr t"
      by (simp add: same)
    from attempt_miss_succeeds [OF miss this] run same
    show "fst (get_ibm_token env w) = Inr t
           \<and> token (token_cache (snd (get_ibm_token env w))) = t
           \<and> attempts (snd (get_ibm_token env w)) = attempts w + 3
           \<and> id_posts (snd (get_ibm_token env w)) = id_posts w + 3
           \<and> sleeps (snd (get_ibm_token env w)) = sleeps w @ [4, 4]"
      by simp
  qed
  show "\<forall>e. identity_result env (id_posts w + 2) = Inl e \<longrightarrow>
           fst (get_ibm_token env w) = Inl (get_ibm_token_except env e)
           \<and> token_cache (snd (get_ibm_token env w)) = token_cache w
           \<and> attempts (snd (get_ibm_token env w)) = attempts w + 3
           \<and> id_posts (snd (get_ibm_token env w)) = id_posts w + 3
           \<and> sleeps (snd (get_ibm_token env w)) = sleeps w @ [4, 4]"
  proof (intro allI impI)
    fix e assume "identity_result env (id_posts w + 2) = Inl e"
    then have "identity_result env (id_posts w2) = Inl e"
      by (simp add: same)
    from attempt_miss_fails [OF miss this] run same
    show "fst (get_ibm_token env w) = Inl (get_ibm_token_except env e)
           \<and> token_cache (snd (get_ibm_token env w)) = token_cache w
           \<and> attempts (snd (get_ibm_token env w)) = attempts w + 3
           \<and> id_posts (snd (get_ibm_token env w)) = id_posts w + 3
           \<and> sleeps (snd (get_ibm_token env w)) = sleeps w @ [4, 4]"
      by simp
  qed
qed

theorem get_ibm_token_three_attempts_witness:
  "fst (get_ibm_token env_identity_flaky initial_world) = Inr (JStr ''t1'')
   \<and> token (token_cache (snd (get_ibm_token env_identity_flaky initial_world))) = JStr ''t1''
   \<and> attempts (snd (get_ibm_token env_identity_flaky initial_world)) = 3
   \<and> id_posts (snd (get_ibm_token env_identity_flaky initial_world)) = 3
   \<and> sleeps (snd (get_ibm_token env_identity_flaky initial_world)) = [4, 4]
   \<and> fst (get_ibm_token env_identity_down initial_world)
       = Inl (HTTPException 503 ''Authentication service unavailable'')
   \<and> attempts (snd (get_ibm_token env_identity_down initial_world)) = 3"
  using get_ibm_token_three_attempts [of initial_world env_identity_flaky,
      THEN conjunct2, THEN conjunct2, THEN conjunct2, THEN conjunct2]
    get_ibm_token_three_attempts [of initial_world env_identity_down,
      THEN conjunct2, THEN conjunct2, THEN conjunct2, THEN conjunct2]
  by (simp add: identity_result_values initial_world_fields cache_valid_def
      get_ibm_token_except_def)

text \<open>
  C3 (as the code has it). An attempt that finds a valid token in the cache returns it.
  Otherwise it sends one request: a failure without a response (timeout, connection
  failure) and an HTTP error status (4xx, 5xx) both raise 503 "Authentication service
  unavailable"; an exception from outside \<^verbatim>\<open>requests\<close>, and a decoded body from which no
  \<^verbatim>\<open>access_token\<close> can be read, raise 500 "Authentication failed"; a body that does not
  decode raises the one or the other with the installed \<^verbatim>\<open>requests\<close>; and a decoded body
  with an \<^verbatim>\<open>access_token\<close> makes the attempt return that value as it is, empty or not.
\<close>

theorem get_ibm_token_attempt_outcomes:
  "(cache_valid (token_cache w) (clock env (clock_reads w)) \<longrightarrow>
      fst (get_ibm_token_attempt env w) = Inr (token (token_cache w)))
   \<and> (\<not> cache_valid (token_cache w) (clock env (clock_reads w)) \<longrightarrow>
       (identity env (id_posts w) = NetworkFailure \<longrightarrow>
          fst (get_ibm_token_attempt env w)
            = Inl (HTTPException 503 ''Authentication service unavailable''))
     \<and> (identity env (id_posts w) = Crashes \<longrightarrow>
          fst (get_ibm_token_attempt env w) = Inl (HTTPException 500 ''Authentication failed''))
     \<and> (\<forall>resp. identity env (id_posts w) = Responds resp \<longrightarrow>
          (400 \<le> status_code resp \<and> status_code resp < 600 \<longrightarrow>
             fst (get_ibm_token_attempt env w)
               = Inl (HTTPException 503 ''Authentication service unavailable''))
        \<and> (\<not> (400 \<le> status_code resp \<and> status_code resp < 600) \<longrightarrow>
             (json_of resp = None \<longrightarrow>
                fst (get_ibm_token_attempt env w)
                  = Inl (if json_error_is_request_exception env
                         then HTTPException 503 ''Authentication service unavailable''
                         else HTTPException 500 ''Authentication failed''))
           \<and> (\<forall>token_data. json_of resp = Some token_data \<longrightarrow>
                (\<forall>e. py_getitem token_data ''access_token'' = Inl e \<longrightarrow>
                   fst (get_ibm_token_attempt env w)
                     = Inl (HTTPException 500 ''Authentication failed''))
              \<and> (\<forall>t. py_getitem token_data ''access_token'' = Inr t \<longrightarrow>
                   fst (get_ibm_token_attempt env w) = Inr t
                   \<and> token (token_cache (snd (get_ibm_token_attempt env w))) = t)))))"
proof -
  let ?r = "fst (get_ibm_token_attempt env w)"
  let ?unavailable = "Inl (HTTPException 503 ''Authentication service unavailable'')"
  let ?failed = "Inl (HTTPException 500 ''Authentication failed'')"
  have hit: "?r = Inr (token (token_cache w))"
    if "cache_valid (token_cache w) (clock env (clock_reads w))"
    using that by (simp add: attempt_hit)
  have failing: "?r = Inl (get_ibm_token_except env e)"
    if "\<not> cache_valid (token_cache w) (clock env (clock_reads w))"
      and "identity_result env (id_posts w) = Inl e" for e
    using attempt_miss_fails [OF that] by simp
  have succeeding: "?r = Inr t \<and> token (token_cache (snd (get_ibm_token_attempt env w))) = t"
    if "\<not> cache_valid (token_cache w) (clock env (clock_reads w))"
      and "identity_result env (id_posts w) = Inr t" for t
    using attempt_miss_succeeds [OF that] by simp
  have network: "identity_result env (id_posts w) = Inl RequestException"
    if "identity env (id_posts w) = NetworkFailure"
    using that by (simp add: identity_result_def of_reply_def try_bind_def)
  have crash: "identity_result env (id_posts w) = Inl OtherException"
    if "identity env (id_posts w) = Crashes"
    using that by (simp add: identity_result_def of_reply_def try_bind_def)
  have status: "identity_result env (id_posts w) = Inl (HTTPError resp)"
    if "identity env (id_posts w) = Responds resp"
      and "400 \<le> status_code resp \<and> status_code resp < 600" for resp
    using that
    by (simp add: identity_result_def of_reply_def try_bind_def read_access_token_def
        raise_for_status_def)
  have undecoded: "identity_result env (id_posts w) = Inl JSONDecodeError"
    if "identity env (id_posts w) = Responds resp"
      and "\<not> (400 \<le> status_code resp \<and> status_code resp < 600)"
      and "json_of resp = None" for resp
    using that
    by (auto simp: identity_result_def of_reply_def try_bind_def read_access_token_def
        raise_for_status_def response_json_def)
  have decoded: "identity_result env (id_posts w) = py_getitem token_data ''access_token''"
    if "identity env (id_posts w) = Responds resp"
      and "\<not> (400 \<le> status_code resp \<and> status_code resp < 600)"
      and "json_of resp = Some token_data" for resp token_data
    using that
    by (auto simp: identity_result_def of_reply_def try_bind_def read_access_token_def
        raise_for_status_def response_json_def)
  have lookup: "e = KeyError \<or> e = TypeError"
    if "py_getitem token_data ''access_token'' = Inl e" for token_data e
    using that by (cases token_data) (auto split: option.splits)
  have c1: "identity env (id_posts w) = NetworkFailure \<longrightarrow> ?r = ?unavailable"
    if "\<not> cache_valid (token_cache w) (clock env (clock_reads w))"
    using failing [OF that network] by (simp add: get_ibm_token_except_def)
  have c2: "identity env (id_posts w) = Crashes \<longrightarrow> ?r = ?failed"
    if "\<not> cache_valid (token_cache w) (clock env (clock_reads w))"
    using failing [OF that crash] by (simp add: get_ibm_token_except_def)
  have c3: "?r = ?unavailable"
    if "\<not> cache_valid (token_cache w) (clock env (clock_reads w))"
      and "identity env (id_posts w) = Responds resp"
      and "400 \<le> status_code resp \<and> status_code resp < 600" for resp
    using failing [OF that(1) status [OF that(2,3)]] by (simp add: get_ibm_token_except_def)
  have c4: "?r = Inl (if json_error_is_request_exception env
                then HTTPException 503 ''Authentication service unavailable''
                else HTTPException 500 ''Authentication failed'')"
    if "\<not> cache_valid (token_cache w) (clock env (clock_reads w))"
      and "identity env (id_posts w) = Responds resp"
      and "\<not> (400 \<le> status_code resp \<and> status_code resp < 600)"
      and "json_of resp = None" for resp
    using failing [OF that(1) undecoded [OF that(2,3,4)]]
    by (simp add: get_ibm_token_except_def)
  have c5: "?r = ?failed"
    if "\<not> cache_valid (token_cache w) (clock env (clock_reads w))"
      and "identity env (id_posts w) = Responds resp"
      and "\<not> (400 \<le> status_code resp \<and> status_code resp < 600)"
      and "json_of resp = Some token_data"
      and "py_getitem token_data ''access_token'' = Inl e" for resp token_data e
    using failing [OF that(1), of e] decoded [OF that(2,3,4)] that(5) lookup [OF that(5)]
    by (auto simp: get_ibm_token_except_def)
  have c6: "?r = Inr t \<and> token (token_cache (snd (get_ibm_token_attempt env w))) = t"
    if "\<not> cache_valid (token_cache w) (clock env (clock_reads w))"
      and "identity env (id_posts w) = Responds resp"
      and "\<not> (400 \<le> status_code resp \<and> status_code resp < 600)"
      and "json_of resp = Some token_data"
      and "py_getitem token_data ''access_token'' = Inr t" for resp token_data t
    using succeeding [OF that(1), of t] decoded [OF that(2,3,4)] that(5) by simp
  show ?thesis
    using hit c1 c2 c3 c4 c5 c6 by blast
qed

theorem get_ibm_token_attempt_outcomes_witness:
  "fst (get_ibm_token_attempt env_identity_down initial_world)
     = Inl (HTTPException 503 ''Authentication service unavailable'')
   \<and> fst (get_ibm_token_attempt env_identity_flaky (initial_world\<lparr>id_posts := 2\<rparr>))
       = Inr (JStr ''t1'')
   \<and> fst (get_ibm_token_attempt env_identity_down (cached_world (JStr ''t0'') 5000))
       = Inr (JStr ''t0'')"
  using get_ibm_token_attempt_outcomes [of initial_world env_identity_down]
    get_ibm_token_attempt_outcomes [of "initial_world\<lparr>id_posts := 2\<rparr>" env_identity_flaky]
    get_ibm_token_attempt_outcomes [of "cached_world (JStr ''t0'') 5000" env_identity_down]
  by (simp add: cache_valid_def initial_world_def cached_world_def env_identity_down_def
      env_identity_flaky_def services_def token_reply_def)

theorem http_error_is_unavailable_counterexample:
  "identity env_identity_500 0 = Responds \<lparr>status_code = 500, text_of = [], json_of = None\<rparr>
   \<and> fst (get_ibm_token_attempt env_identity_500 initial_world)
       = Inl (HTTPException 503 ''Authentication service unavailable'')
   \<and> fst (get_ibm_token_attempt env_identity_500 initial_world)
       \<noteq> Inl (HTTPException 500 ''Authentication failed'')
   \<and> fst (get_ibm_token_attempt env_empty_token initial_world) = Inr (JStr [])"
proof -
  have miss: "\<not> cache_valid (token_cache initial_world) (clock e (clock_reads initial_world))"
    for e
    by (simp add: cache_valid_def initial_world_fields)
  have "fst (get_ibm_token_attempt env_identity_500 initial_world)
       = Inl (HTTPException 503 ''Authentication service unavailable'')"
    using attempt_miss_fails [OF miss, of env_identity_500]
    by (simp add: identity_result_values initial_world_fields get_ibm_token_except_def)
  moreover have "fst (get_ibm_token_attempt env_empty_token initial_world) = Inr (JStr [])"
    using attempt_miss_succeeds [OF miss, of env_empty_token]
    by (simp add: identity_result_values initial_world_fields)
  ultimately show ?thesis
    by (simp add: env_identity_500_def services_def status_reply_def)
qed

section \<open>The token cache\<close>

text \<open>
  C5 (as the code has it). With \<open>now\<close> the reading of the clock: the cache yields nothing
  when \<open>expires_at \<le> now\<close>; it yields the stored token when \<open>expires_at > now\<close> and the
  stored token is truthy (a non-empty string); it yields nothing, at any time, when the
  stored token is empty or absent, and so after \<open>invalidate\<close>. What the cache yields is what
  the attempt returns, with no request to the identity service.
\<close>

theorem cache_lookup_guard:
  "(expires_at (token_cache w) \<le> clock env (clock_reads w) \<longrightarrow> fst (cache_lookup env w) = None)
   \<and> (clock env (clock_reads w) < expires_at (token_cache w) \<and> truthy (token (token_cache w)) \<longrightarrow>
        fst (cache_lookup env w) = Some (token (token_cache w)))
   \<and> (\<not> truthy (token (token_cache w)) \<longrightarrow> fst (cache_lookup env w) = None)
   \<and> fst (cache_lookup env (invalidate w)) = None
   \<and> (\<forall>t. fst (cache_lookup env w) = Some t \<longrightarrow>
        fst (get_ibm_token_try env w) = Inr t
        \<and> id_posts (snd (get_ibm_token_try env w)) = id_posts w
        \<and> token_cache (snd (get_ibm_token_try env w)) = token_cache w)"
proof -
  have look: "cache_lookup env w =
      (if truthy (token (token_cache w)) then
         (if clock env (clock_reads w) < expires_at (token_cache w)
          then Some (token (token_cache w)) else None,
          w\<lparr>clock_reads := Suc (clock_reads w)\<rparr>)
       else (None, w))"
    by (simp add: cache_lookup_def time_time_def)
  have "fst (cache_lookup env (invalidate w)) = None"
    by (simp add: cache_lookup_def invalidate_def)
  moreover have "fst (get_ibm_token_try env w) = Inr t
        \<and> id_posts (snd (get_ibm_token_try env w)) = id_posts w
        \<and> token_cache (snd (get_ibm_token_try env w)) = token_cache w"
    if "fst (cache_lookup env w) = Some t" for t
    using that by (simp add: get_ibm_token_try_def look split: if_splits)
  ultimately show ?thesis
    by (simp add: look)
qed

theorem cache_lookup_guard_witness:
  "fst (cache_lookup env_identity_down (cached_world (JStr ''t0'') 1000)) = None
   \<and> fst (cache_lookup env_identity_down (cached_world (JStr ''t0'') 1001)) = Some (JStr ''t0'')
   \<and> fst (cache_lookup env_identity_down (cached_world JNull 1001)) = None
   \<and> fst (get_ibm_token_try env_identity_down (cached_world (JStr ''t0'') 1001)) = Inr (JStr ''t0'')"
  using cache_lookup_guard [of "cached_world (JStr ''t0'') 1000" env_identity_down]
    cache_lookup_guard [of "cached_world (JStr ''t0'') 1001" env_identity_down]
    cache_lookup_guard [of "cached_world JNull 1001" env_identity_down]
  by (simp add: cached_world_def initial_world_def env_identity_down_def services_def)

theorem empty_token_unread_counterexample:
  "clock env_identity_down (clock_reads (cached_world (JStr []) 5000))
     < expires_at (token_cache (cached_world (JStr []) 5000))
   \<and> token (token_cache (cached_world (JStr []) 5000)) = JStr []
   \<and> fst (cache_lookup env_identity_down (cached_world (JStr []) 5000)) = None
   \<and> fst (cache_lookup env_identity_down (cached_world (JStr []) 5000))
       \<noteq> Some (token (token_cache (cached_world (JStr []) 5000)))"
  by (simp add: cache_lookup_def cached_world_def initial_world_def env_identity_down_def
      services_def)

section \<open>The health reporter: never an exception\<close>

lemma health_check_result:
  "fst (health_check env w) =
     (case fst (get_ibm_token env w) of
        Inr t \<Rightarrow> Inr \<lparr>health_status = ''healthy'', api_ready = truthy t\<rparr>
      | Inl e \<Rightarrow> Inr \<lparr>health_status = ''unhealthy'', api_ready = False\<rparr>)"
  by (simp add: health_check_def split: prod.splits sum.splits)

text \<open>
  C9 (as the code has it). \<^verbatim>\<open>health_check\<close> returns a value for every environment and
  world. When \<^verbatim>\<open>get_ibm_token\<close> returns a token the status is "healthy" and the readiness
  is the truth value of the token: true for a non-empty string, false for an empty one.
  When \<^verbatim>\<open>get_ibm_token\<close> raises, the status is "unhealthy" and the readiness false.
\<close>

theorem health_check_never_raises:
  "(\<exists>h. fst (health_check env w) = Inr h)
   \<and> (\<forall>t. fst (get_ibm_token env w) = Inr t \<longrightarrow>
        fst (health_check env w) = Inr \<lparr>health_status = ''healthy'', api_ready = truthy t\<rparr>)
   \<and> (\<forall>s. fst (get_ibm_token env w) = Inr (JStr s) \<and> s \<noteq> [] \<longrightarrow>
        fst (health_check env w) = Inr \<lparr>health_status = ''healthy'', api_ready = True\<rparr>)
   \<and> (\<forall>e. fst (get_ibm_token env w) = Inl e \<longrightarrow>
        fst (health_check env w) = Inr \<lparr>health_status = ''unhealthy'', api_ready = False\<rparr>)"
  by (auto simp: health_check_result split: sum.splits)

lemma first_token:
  "fst (get_ibm_token env_empty_token initial_world) = Inr (JStr [])"
  "fst (get_ibm_token env_retry_ok initial_world) = Inr (JStr ''t1'')"
  by (simp_all add: get_ibm_token_first_try identity_result_values initial_world_fields)

lemma no_token:
  "fst (get_ibm_token env_identity_down initial_world)
     = Inl (HTTPException 503 ''Authentication service unavailable'')"
  by (simp add: get_ibm_token_exhausted [where ?e1.0 = RequestException
        and ?e2.0 = RequestException and ?e3.0 = RequestException]
      identity_result_values initial_world_fields get_ibm_token_except_def)

theorem health_check_never_raises_witness:
  "fst (health_check env_retry_ok initial_world)
     = Inr \<lparr>health_status = ''healthy'', api_ready = True\<rparr>
   \<and> fst (health_check env_identity_down initial_world)
       = Inr \<lparr>health_status = ''unhealthy'', api_ready = False\<rparr>"
  using health_check_never_raises [of env_retry_ok initial_world]
    health_check_never_raises [of env_identity_down initial_world]
  by (simp add: first_token no_token)

theorem healthy_not_ready_counterexample:
  "fst (get_ibm_token env_empty_token initial_world) = Inr (JStr [])
   \<and> fst (health_check env_empty_token initial_world)
       = Inr \<lparr>health_status = ''healthy'', api_ready = False\<rparr>"
  by (simp add: health_check_result first_token)

section \<open>The chat gateway: one request, step by step\<close>

lemma post_inference_frame:
  "post_inference env url body hdrs w = (r, w') \<Longrightarrow>
     w' = w\<lparr>sent := sent w @ [\<lparr>endpoint = url, headers = hdrs, payload = body\<rparr>]\<rparr>
     \<and> r = of_reply (inference env (length (sent w)))"
  by (auto simp: post_inference_def)

lemma chat_auth_fails:
  assumes "strip (message msg) \<noteq> []" and "get_ibm_token env w = (Inl e, w1)"
  shows "chat env msg w = (Inl (HTTPException 401 ''Authentication failed''), w1)"
  using assms by (simp add: chat_def chat_try_def authenticate_def chat_except_def)

lemma chat_first_dispatch_unreachable:
  assumes "strip (message msg) \<noteq> []" and "get_ibm_token env w = (Inr t, w1)"
    and "inference env (length (sent w1)) = NetworkFailure"
  shows "fst (chat env msg w) = Inl (HTTPException 503 ''Service unavailable'')"
  using assms
  by (simp add: chat_def chat_try_def authenticate_def call_api_def post_inference_def
      of_reply_def call_api_except_def chat_except_def)

lemma chat_reacquire_fails:
  assumes "strip (message msg) \<noteq> []" and "get_ibm_token env w = (Inr t, w1)"
    and "post_inference env (select_endpoint msg) (get_watsonx_payload (message msg))
           (bearer_headers t) w1 = (Inr r1, w1')"
    and "status_code r1 = 401"
    and "get_ibm_token env (invalidate w1') = (Inl e, w2)"
  shows "chat env msg w = (Inl e, w2)"
proof -
  from assms(5) have "e = HTTPException 503 ''Authentication service unavailable''
              \<or> e = HTTPException 500 ''Authentication failed''"
    by (rule get_ibm_token_errors)
  then have pass: "call_api_except env e = e" "chat_except e = e"
    by (auto simp: call_api_except_def chat_except_def)
  have "call_api env (select_endpoint msg) (get_watsonx_payload (message msg))
          (bearer_headers t) w1 = (Inl e, w2)"
    using assms(3,4,5) by (simp add: call_api_def)
  with assms(1,2) pass show ?thesis
    by (simp add: chat_def chat_try_def authenticate_def)
qed

lemma chat_second_dispatch:
  assumes "strip (message msg) \<noteq> []" and "get_ibm_token env w = (Inr t, w1)"
    and "post_inference env (select_endpoint msg) (get_watsonx_payload (message msg))
           (bearer_headers t) w1 = (Inr r1, w1')"
    and "status_code r1 = 401"
    and "get_ibm_token env (invalidate w1') = (Inr t2, w2)"
    and "post_inference env (select_endpoint msg) (get_watsonx_payload (message msg))
           (bearer_headers t2) w2 = (r2, w3)"
  shows "chat env msg w =
           (case try_bind r2 checked of
              Inl e \<Rightarrow> Inl (chat_except (call_api_except env e))
            | Inr resp \<Rightarrow>
                (case process_response env resp of
                   Inl e \<Rightarrow> Inl (chat_except e)
                 | Inr r \<Rightarrow> Inr r),
            w3)"
proof -
  have "call_api env (select_endpoint msg) (get_watsonx_payload (message msg))
          (bearer_headers t) w1 = (try_bind r2 checked, w3)"
    using assms(3,4,5,6) by (simp add: call_api_def try_bind_def split: sum.splits)
  with assms(1,2) show ?thesis
    by (simp add: chat_def chat_try_def authenticate_def split: sum.splits)
qed

lemma network_failure_result:
  "identity env k = NetworkFailure \<Longrightarrow> identity_result env k = Inl RequestException"
  by (simp add: identity_result_def of_reply_def try_bind_def)

lemma three_failures:
  assumes "\<forall>k<3. \<not> cache_valid (token_cache w) (clock env (clock_reads w + k))"
    and "identity_result env (id_posts w) = Inl e1"
    and "identity_result env (id_posts w + 1) = Inl e2"
    and "identity_result env (id_posts w + 2) = Inl e3"
  shows "\<exists>w'. get_ibm_token env w = (Inl (get_ibm_token_except env e3), w')
           \<and> sent w' = sent w \<and> id_posts w' = id_posts w + 3"
proof -
  have c: "\<not> cache_valid (token_cache w) (clock env (clock_reads w))"
      "\<not> cache_valid (token_cache w) (clock env (clock_reads w + 1))"
      "\<not> cache_valid (token_cache w) (clock env (clock_reads w + 2))"
    using assms(1) [rule_format, of 0] assms(1) [rule_format, of 1] assms(1) [rule_format, of 2]
    by simp_all
  from fails_twice [OF c assms(2,3)] obtain w2 where
    run: "get_ibm_token env w = get_ibm_token_attempt env w2"
    and miss: "\<not> cache_valid (token_cache w2) (clock env (clock_reads w2))"
    and same: "id_posts w2 = id_posts w + 2" "sent w2 = sent w"
    by blast
  from assms(4) have "identity_result env (id_posts w2) = Inl e3"
    by (simp add: same)
  from attempt_miss_fails [OF miss this] run same show ?thesis
    by simp
qed

lemma identity_unreachable:
  assumes "\<forall>k<3. \<not> cache_valid (token_cache w) (clock env (clock_reads w + k))"
    and "\<forall>k<3. identity env (id_posts w + k) = NetworkFailure"
  shows "\<exists>w'. get_ibm_token env w
             = (Inl (HTTPException 503 ''Authentication service unavailable''), w')
           \<and> sent w' = sent w"
proof -
  have "identity_result env (id_posts w) = Inl RequestException"
    "identity_result env (id_posts w + 1) = Inl RequestException"
    "identity_result env (id_posts w + 2) = Inl RequestException"
    using assms(2) [rule_format, of 0] assms(2) [rule_format, of 1] assms(2) [rule_format, of 2]
    by (simp_all add: network_failure_result)
  from three_failures [OF assms(1) this] show ?thesis
    by (auto simp: get_ibm_token_except_def)
qed

text \<open>The concrete runs: the first token, the first dispatch, and what follows it.\<close>

lemma strip_hello: "strip (message hello) \<noteq> []"
  by (simp add: hello_def strip_def is_space_def)

lemma first_token_run:
  assumes "identity_result env 0 = Inr t"
  obtains w1 where "get_ibm_token env initial_world = (Inr t, w1)"
    and "sent w1 = []" and "id_posts w1 = 1"
  using assms get_ibm_token_first_try [of initial_world env t]
  by (simp add: initial_world_fields)

lemma first_dispatch_run:
  assumes "sent w1 = []" and "inference env 0 = Responds r1"
  obtains w1' where
    "post_inference env (select_endpoint msg) (get_watsonx_payload (message msg)) hdrs w1
       = (Inr r1, w1')"
    and "sent w1' = [dispatch_of msg hdrs]" and "id_posts w1' = id_posts w1"
  using assms by (simp add: post_inference_def of_reply_def dispatch_of_def)

lemma inference_values:
  "inference env_always_401 k = Responds \<lparr>status_code = 401, text_of = [], json_of = None\<rparr>"
  "inference env_reauth_down k = Responds \<lparr>status_code = 401, text_of = [], json_of = None\<rparr>"
  "inference env_retry_ok 0 = Responds \<lparr>status_code = 401, text_of = [], json_of = None\<rparr>"
  "inference env_inference_down k = NetworkFailure"
  "identity env_identity_down k = NetworkFailure"
  "0 < k \<Longrightarrow> identity env_reauth_down k = NetworkFailure"
  by (simp_all add: env_always_401_def env_reauth_down_def env_retry_ok_def
      env_inference_down_def env_identity_down_def services_def status_reply_def)

lemma chat_reauth_down:
  "fst (chat env_reauth_down hello initial_world)
     = Inl (HTTPException 503 ''Authentication service unavailable'')
   \<and> sent (snd (chat env_reauth_down hello initial_world))
       = [dispatch_of hello (bearer_headers (JStr ''t1''))]"
proof -
  let ?env = env_reauth_down
  obtain w1 where auth: "get_ibm_token ?env initial_world = (Inr (JStr ''t1''), w1)"
    and w1: "sent w1 = []" "id_posts w1 = 1"
    by (rule first_token_run [of ?env "JStr ''t1''"]) (simp add: identity_result_values)
  obtain w1' where first: "post_inference ?env (select_endpoint hello)
        (get_watsonx_payload (message hello)) (bearer_headers (JStr ''t1'')) w1
        = (Inr \<lparr>status_code = 401, text_of = [], json_of = None\<rparr>, w1')"
    and w1': "sent w1' = [dispatch_of hello (bearer_headers (JStr ''t1''))]"
      "id_posts w1' = id_posts w1"
    by (rule first_dispatch_run [OF w1(1) inference_values(2)])
  have "\<exists>w2. get_ibm_token ?env (invalidate w1')
          = (Inl (HTTPException 503 ''Authentication service unavailable''), w2)
        \<and> sent w2 = sent (invalidate w1')"
    by (rule identity_unreachable)
      (simp_all add: invalidate_def cache_valid_def w1 w1' inference_values)
  then obtain w2 where reauth: "get_ibm_token ?env (invalidate w1')
          = (Inl (HTTPException 503 ''Authentication service unavailable''), w2)"
    and w2: "sent w2 = sent (invalidate w1')"
    by blast
  have "chat ?env hello initial_world
          = (Inl (HTTPException 503 ''Authentication service unavailable''), w2)"
    by (rule chat_reacquire_fails [OF strip_hello auth first _ reauth]) simp
  with w2 w1' show ?thesis
    by (simp add: invalidate_def)
qed


lemma chat_identity_down:
  "fst (chat env_identity_down hello initial_world)
     = Inl (HTTPException 401 ''Authentication failed'')"
proof -
  have "\<exists>w'. get_ibm_token env_identity_down initial_world
          = (Inl (HTTPException 503 ''Authentication service unavailable''), w')
        \<and> sent w' = sent initial_world"
    by (rule identity_unreachable)
      (simp_all add: cache_valid_def initial_world_fields inference_values)
  then obtain w' where "get_ibm_token env_identity_down initial_world
          = (Inl (HTTPException 503 ''Authentication service unavailable''), w')"
    by blast
  from chat_auth_fails [OF strip_hello this] show ?thesis
    by simp
qed

section \<open>The claims about the chat gateway\<close>

text \<open>
  C1 (as the code has it). A chat request passes validation and gets a token; its first
  dispatch is answered 401. The gateway then clears the cached token and calls
  \<^verbatim>\<open>get_ibm_token\<close> once.
  \<^item> When that call raises, the request fails with what it raised, in the world that
    the call left: the first dispatch is the only request sent to the inference service.
  \<^item> When that call returns a token, the dispatch is sent once more under the new token
    and nothing else is done to the world: the requests sent are the two dispatches, and
    the identity service is not contacted again. When the second dispatch is answered
    401 as well and the error detail can be built from its body, the request fails with
    502 and that detail.
\<close>

theorem auth_retry_once:
  assumes valid: "strip (message msg) \<noteq> []"
    and auth: "get_ibm_token env w = (Inr t, w1)"
    and first: "post_inference env (select_endpoint msg) (get_watsonx_payload (message msg))
                  (bearer_headers t) w1 = (Inr r1, w1')"
    and unauthorized: "status_code r1 = 401"
  shows "token (token_cache (invalidate w1')) = JNull
         \<and> (\<forall>e w2. get_ibm_token env (invalidate w1') = (Inl e, w2) \<longrightarrow>
               chat env msg w = (Inl e, w2)
               \<and> sent w2 = sent w @ [dispatch_of msg (bearer_headers t)])
         \<and> (\<forall>t2 w2 r2 w3.
               get_ibm_token env (invalidate w1') = (Inr t2, w2)
               \<and> post_inference env (select_endpoint msg) (get_watsonx_payload (message msg))
                    (bearer_headers t2) w2 = (r2, w3) \<longrightarrow>
               snd (chat env msg w) = w3
               \<and> sent w3 = sent w @ [dispatch_of msg (bearer_headers t),
                                      dispatch_of msg (bearer_headers t2)]
               \<and> id_posts w3 = id_posts w2 \<and> attempts w3 = attempts w2
               \<and> (\<forall>resp d. r2 = Inr resp \<and> status_code resp = 401
                      \<and> error_detail resp = Inr d \<longrightarrow>
                      fst (chat env msg w) = Inl (HTTPException 502 d)))"
proof (intro conjI allI impI)
  show "token (token_cache (invalidate w1')) = JNull"
    by (simp add: invalidate_def)
next
  fix e w2
  assume reauth: "get_ibm_token env (invalidate w1') = (Inl e, w2)"
  show "chat env msg w = (Inl e, w2)"
    by (rule chat_reacquire_fails [OF valid auth first unauthorized reauth])
  show "sent w2 = sent w @ [dispatch_of msg (bearer_headers t)]"
    using get_ibm_token_frame [OF auth] get_ibm_token_frame [OF reauth]
      post_inference_frame [OF first]
    by (simp add: invalidate_def dispatch_of_def)
next
  fix t2 w2 r2 w3
  assume a: "get_ibm_token env (invalidate w1') = (Inr t2, w2)
               \<and> post_inference env (select_endpoint msg) (get_watsonx_payload (message msg))
                    (bearer_headers t2) w2 = (r2, w3)"
  then have reauth: "get_ibm_token env (invalidate w1') = (Inr t2, w2)"
    and second: "post_inference env (select_endpoint msg) (get_watsonx_payload (message msg))
                    (bearer_headers t2) w2 = (r2, w3)"
    by simp_all
  note run = chat_second_dispatch [OF valid auth first unauthorized reauth second]
  show "snd (chat env msg w) = w3"
    by (simp add: run)
  show "sent w3 = sent w @ [dispatch_of msg (bearer_headers t),
                            dispatch_of msg (bearer_headers t2)]"
    using get_ibm_token_frame [OF auth] get_ibm_token_frame [OF reauth]
      post_inference_frame [OF first] post_inference_frame [OF second]
    by (simp add: invalidate_def dispatch_of_def)
  show "id_posts w3 = id_posts w2" and "attempts w3 = attempts w2"
    using post_inference_frame [OF second] by simp_all
  fix resp d
  assume "r2 = Inr resp \<and> status_code resp = 401 \<and> error_detail resp = Inr d"
  then show "fst (chat env msg w) = Inl (HTTPException 502 d)"
    by (simp add: run checked_def raise_for_status_def try_bind_def call_api_except_def
        chat_except_def)
qed

theorem auth_retry_once_witness:
  "fst (chat env_always_401 hello initial_world) = Inl (HTTPException 502 ''HTTP Error: 401'')
   \<and> sent (snd (chat env_always_401 hello initial_world))
       = [dispatch_of hello (bearer_headers (JStr ''t1'')),
          dispatch_of hello (bearer_headers (JStr ''t2''))]
   \<and> id_posts (snd (chat env_always_401 hello initial_world)) = 2
   \<and> fst (chat env_reauth_down hello initial_world)
       = Inl (HTTPException 503 ''Authentication service unavailable'')
   \<and> sent (snd (chat env_reauth_down hello initial_world))
       = [dispatch_of hello (bearer_headers (JStr ''t1''))]"
proof -
  let ?r = "\<lparr>status_code = 401, text_of = [], json_of = None\<rparr>"
  have unauthorized: "status_code ?r = 401"
    by simp
  let ?env = env_always_401
  obtain w1 where auth: "get_ibm_token ?env initial_world = (Inr (JStr ''t1''), w1)"
    and w1: "sent w1 = []" "id_posts w1 = 1"
    by (rule first_token_run [of ?env "JStr ''t1''"]) (simp add: identity_result_values)
  obtain w1' where first: "post_inference ?env (select_endpoint hello)
        (get_watsonx_payload (message hello)) (bearer_headers (JStr ''t1'')) w1 = (Inr ?r, w1')"
    and w1': "sent w1' = [dispatch_of hello (bearer_headers (JStr ''t1''))]"
      "id_posts w1' = id_posts w1"
    by (rule first_dispatch_run [OF w1(1) inference_values(1)])
  let ?w2 = "snd (get_ibm_token ?env (invalidate w1'))"
  have reauth: "get_ibm_token ?env (invalidate w1') = (Inr (JStr ''t2''), ?w2)"
    and w2: "id_posts ?w2 = 2"
    using get_ibm_token_first_try [of "invalidate w1'" ?env "JStr ''t2''"]
    by (simp_all add: invalidate_def identity_result_values w1 w1')
  let ?w3 = "snd (post_inference ?env (select_endpoint hello)
        (get_watsonx_payload (message hello)) (bearer_headers (JStr ''t2'')) ?w2)"
  have second: "post_inference ?env (select_endpoint hello)
        (get_watsonx_payload (message hello)) (bearer_headers (JStr ''t2'')) ?w2
        = (Inr ?r, ?w3)"
    by (simp add: post_inference_def inference_values of_reply_def)
  have detail: "error_detail ?r = Inr ''HTTP Error: 401''"
    by (simp add: error_detail_def str_int_def digits.simps)
  from auth_retry_once [OF strip_hello auth first unauthorized,
      THEN conjunct2, THEN conjunct2, rule_format, of "JStr ''t2''" ?w2 "Inr ?r" ?w3]
    reauth second detail w2
  have again: "fst (chat ?env hello initial_world) = Inl (HTTPException 502 ''HTTP Error: 401'')
   \<and> sent (snd (chat ?env hello initial_world))
       = [dispatch_of hello (bearer_headers (JStr ''t1'')),
          dispatch_of hello (bearer_headers (JStr ''t2''))]
   \<and> id_posts (snd (chat ?env hello initial_world)) = 2"
    by (simp add: initial_world_fields)
  let ?down = env_reauth_down
  obtain v1 where auth': "get_ibm_token ?down initial_world = (Inr (JStr ''t1''), v1)"
    and v1: "sent v1 = []" "id_posts v1 = 1"
    by (rule first_token_run [of ?down "JStr ''t1''"]) (simp add: identity_result_values)
  obtain v1' where first': "post_inference ?down (select_endpoint hello)
        (get_watsonx_payload (message hello)) (bearer_headers (JStr ''t1'')) v1 = (Inr ?r, v1')"
    and v1': "id_posts v1' = id_posts v1"
    by (rule first_dispatch_run [OF v1(1) inference_values(2)])
  have "\<exists>v2. get_ibm_token ?down (invalidate v1')
          = (Inl (HTTPException 503 ''Authentication service unavailable''), v2)
        \<and> sent v2 = sent (invalidate v1')"
    by (rule identity_unreachable)
      (simp_all add: invalidate_def cache_valid_def v1 v1' inference_values)
  then obtain v2 where reauth': "get_ibm_token ?down (invalidate v1')
          = (Inl (HTTPException 503 ''Authentication service unavailable''), v2)"
    by blast
  from auth_retry_once [OF strip_hello auth' first' unauthorized,
      THEN conjunct2, THEN conjunct1, rule_format, OF reauth']
  have stopped: "fst (chat ?down hello initial_world)
       = Inl (HTTPException 503 ''Authentication service unavailable'')
   \<and> sent (snd (chat ?down hello initial_world))
       = [dispatch_of hello (bearer_headers (JStr ''t1''))]"
    by (simp add: initial_world_fields)
  from again stopped show ?thesis
    by simp
qed

theorem auth_retry_no_resend_counterexample:
  "status_code \<lparr>status_code = 401, text_of = [], json_of = None\<rparr> = 401
   \<and> inference env_reauth_down 0 = Responds \<lparr>status_code = 401, text_of = [], json_of = None\<rparr>
   \<and> length (sent (snd (chat env_reauth_down hello initial_world))) = 1
   \<and> fst (chat env_reauth_down hello initial_world)
       = Inl (HTTPException 503 ''Authentication service unavailable'')"
  by (simp add: chat_reauth_down inference_values)

text \<open>
  C10. For a chat request that passes validation: a failure of \<^verbatim>\<open>get_ibm_token\<close> in the
  first authentication step is raised as 401 "Authentication failed", whatever it was;
  a failure of \<^verbatim>\<open>get_ibm_token\<close> after a first dispatch answered 401 is raised as it is,
  and it is 503 "Authentication service unavailable" or 500 "Authentication failed".
\<close>

theorem reacquire_failure_propagates:
  assumes valid: "strip (message msg) \<noteq> []"
  shows "(\<forall>e w1. get_ibm_token env w = (Inl e, w1) \<longrightarrow>
            chat env msg w = (Inl (HTTPException 401 ''Authentication failed''), w1))
       \<and> (\<forall>t w1 r1 w1' e w2.
            get_ibm_token env w = (Inr t, w1)
            \<and> post_inference env (select_endpoint msg) (get_watsonx_payload (message msg))
                 (bearer_headers t) w1 = (Inr r1, w1')
            \<and> status_code r1 = 401
            \<and> get_ibm_token env (invalidate w1') = (Inl e, w2) \<longrightarrow>
            chat env msg w = (Inl e, w2)
            \<and> (e = HTTPException 503 ''Authentication service unavailable''
                 \<or> e = HTTPException 500 ''Authentication failed''))"
  using chat_auth_fails [OF valid] chat_reacquire_fails [OF valid] get_ibm_token_errors
  by blast

theorem reacquire_failure_propagates_witness:
  "fst (chat env_identity_down hello initial_world)
     = Inl (HTTPException 401 ''Authentication failed'')
   \<and> fst (chat env_reauth_down hello initial_world)
       = Inl (HTTPException 503 ''Authentication service unavailable'')"
proof -
  obtain e w1 where down: "get_ibm_token env_identity_down initial_world = (Inl e, w1)"
    using no_token by (cases "get_ibm_token env_identity_down initial_world") auto
  let ?env = env_reauth_down
  let ?r = "\<lparr>status_code = 401, text_of = [], json_of = None\<rparr>"
  obtain v1 where auth: "get_ibm_token ?env initial_world = (Inr (JStr ''t1''), v1)"
    and v1: "sent v1 = []" "id_posts v1 = 1"
    by (rule first_token_run [of ?env "JStr ''t1''"]) (simp add: identity_result_values)
  obtain v1' where first: "post_inference ?env (select_endpoint hello)
        (get_watsonx_payload (message hello)) (bearer_headers (JStr ''t1'')) v1 = (Inr ?r, v1')"
    and v1': "id_posts v1' = id_posts v1"
    by (rule first_dispatch_run [OF v1(1) inference_values(2)])
  have "\<exists>v2. get_ibm_token ?env (invalidate v1')
          = (Inl (HTTPException 503 ''Authentication service unavailable''), v2)
        \<and> sent v2 = sent (invalidate v1')"
    by (rule identity_unreachable)
      (simp_all add: invalidate_def cache_valid_def v1 v1' inference_values)
  then obtain v2 where reauth: "get_ibm_token ?env (invalidate v1')
          = (Inl (HTTPException 503 ''Authentication service unavailable''), v2)"
    by blast
  from reacquire_failure_propagates [OF strip_hello, of env_identity_down initial_world] down
  have "fst (chat env_identity_down hello initial_world)
     = Inl (HTTPException 401 ''Authentication failed'')"
    by simp
  moreover from reacquire_failure_propagates [OF strip_hello, of ?env initial_world]
    auth first reauth
  have "fst (chat ?env hello initial_world)
       = Inl (HTTPException 503 ''Authentication service unavailable'')"
    by simp
  ultimately show ?thesis by simp
qed

text \<open>
  Beside C1: a 401 response whose body decodes to an object with an
  empty \<^verbatim>\<open>errors\<close> list makes the extraction of the error detail raise \<^verbatim>\<open>IndexError\<close>,
  which is no \<^verbatim>\<open>ValueError\<close>; the outer handler of \<^verbatim>\<open>chat\<close> turns it into 500.
\<close>

lemma error_detail_index_error:
  "error_detail \<lparr>status_code = 401, text_of = ''{...}'',
      json_of = Some (JObj [(''errors'', JArr [])])\<rparr> = Inl IndexError
   \<and> chat_except (call_api_except env (HTTPError \<lparr>status_code = 401, text_of = ''{...}'',
      json_of = Some (JObj [(''errors'', JArr [])])\<rparr>))
     = HTTPException 500 ''Internal server error''"
  by (simp add: error_detail_def upstream_message_def response_json_def try_bind_def
      call_api_except_def chat_except_def)

text \<open>
  C4 (as the code has it). For a chat request that passes validation, a failure that
  carries no HTTP response (timeout, connection refused) is raised
  \<^item> as 503 "Service unavailable" when it meets the first dispatch to the inference
    service, or the second one after a 401;
  \<^item> as 401 "Authentication failed" when no valid token is cached and it meets the three
    requests to the identity service of the first authentication step;
  \<^item> as 503 "Authentication service unavailable" when it meets the three requests to
    the identity service that follow a first dispatch answered 401.
\<close>

theorem network_failure_categories:
  assumes valid: "strip (message msg) \<noteq> []"
  shows "(\<forall>t w1. get_ibm_token env w = (Inr t, w1)
            \<and> inference env (length (sent w1)) = NetworkFailure \<longrightarrow>
            fst (chat env msg w) = Inl (HTTPException 503 ''Service unavailable''))
       \<and> (\<forall>t w1 r1 w1' t2 w2.
            get_ibm_token env w = (Inr t, w1)
            \<and> post_inference env (select_endpoint msg) (get_watsonx_payload (message msg))
                 (bearer_headers t) w1 = (Inr r1, w1')
            \<and> status_code r1 = 401
            \<and> get_ibm_token env (invalidate w1') = (Inr t2, w2)
            \<and> inference env (length (sent w2)) = NetworkFailure \<longrightarrow>
            fst (chat env msg w) = Inl (HTTPException 503 ''Service unavailable''))
       \<and> ((\<forall>k<3. \<not> cache_valid (token_cache w) (clock env (clock_reads w + k)))
            \<and> (\<forall>k<3. identity env (id_posts w + k) = NetworkFailure) \<longrightarrow>
            fst (chat env msg w) = Inl (HTTPException 401 ''Authentication failed''))
       \<and> (\<forall>t w1 r1 w1'.
            get_ibm_token env w = (Inr t, w1)
            \<and> post_inference env (select_endpoint msg) (get_watsonx_payload (message msg))
                 (bearer_headers t) w1 = (Inr r1, w1')
            \<and> status_code r1 = 401
            \<and> (\<forall>k<3. identity env (id_posts w1 + k) = NetworkFailure) \<longrightarrow>
            fst (chat env msg w)
              = Inl (HTTPException 503 ''Authentication service unavailable''))"
proof (intro conjI allI impI)
  fix t w1
  assume "get_ibm_token env w = (Inr t, w1)
            \<and> inference env (length (sent w1)) = NetworkFailure"
  then show "fst (chat env msg w) = Inl (HTTPException 503 ''Service unavailable'')"
    using chat_first_dispatch_unreachable [OF valid] by blast
next
  fix t w1 r1 w1' t2 w2
  assume a: "get_ibm_token env w = (Inr t, w1)
            \<and> post_inference env (select_endpoint msg) (get_watsonx_payload (message msg))
                 (bearer_headers t) w1 = (Inr r1, w1')
            \<and> status_code r1 = 401
            \<and> get_ibm_token env (invalidate w1') = (Inr t2, w2)
            \<and> inference env (length (sent w2)) = NetworkFailure"
  let ?w3 = "snd (post_inference env (select_endpoint msg) (get_watsonx_payload (message msg))
                 (bearer_headers t2) w2)"
  have second: "post_inference env (select_endpoint msg) (get_watsonx_payload (message msg))
                 (bearer_headers t2) w2 = (Inl RequestException, ?w3)"
    using a by (simp add: post_inference_def of_reply_def)
  from a have "chat env msg w =
           (case try_bind (Inl RequestException) checked of
              Inl e \<Rightarrow> Inl (chat_except (call_api_except env e))
            | Inr resp \<Rightarrow>
                (case process_response env resp of
                   Inl e \<Rightarrow> Inl (chat_except e)
                 | Inr r \<Rightarrow> Inr r),
            ?w3)"
    by (intro chat_second_dispatch [OF valid _ _ _ _ second]) blast+
  then show "fst (chat env msg w) = Inl (HTTPException 503 ''Service unavailable'')"
    by (simp add: try_bind_def call_api_except_def chat_except_def)
next
  assume "(\<forall>k<3. \<not> cache_valid (token_cache w) (clock env (clock_reads w + k)))
            \<and> (\<forall>k<3. identity env (id_posts w + k) = NetworkFailure)"
  then obtain w' where "get_ibm_token env w
             = (Inl (HTTPException 503 ''Authentication service unavailable''), w')"
    using identity_unreachable [of w env] by blast
  from chat_auth_fails [OF valid this]
  show "fst (chat env msg w) = Inl (HTTPException 401 ''Authentication failed'')"
    by simp
next
  fix t w1 r1 w1'
  assume a: "get_ibm_token env w = (Inr t, w1)
            \<and> post_inference env (select_endpoint msg) (get_watsonx_payload (message msg))
                 (bearer_headers t) w1 = (Inr r1, w1')
            \<and> status_code r1 = 401
            \<and> (\<forall>k<3. identity env (id_posts w1 + k) = NetworkFailure)"
  then have w1': "id_posts w1' = id_posts w1"
    by (auto dest: post_inference_frame)
  have "\<exists>w2. get_ibm_token env (invalidate w1')
          = (Inl (HTTPException 503 ''Authentication service unavailable''), w2)
        \<and> sent w2 = sent (invalidate w1')"
    using a by (intro identity_unreachable) (simp_all add: invalidate_def cache_valid_def w1')
  then obtain w2 where "get_ibm_token env (invalidate w1')
          = (Inl (HTTPException 503 ''Authentication service unavailable''), w2)"
    by blast
  with a have "chat env msg w
      = (Inl (HTTPException 503 ''Authentication service unavailable''), w2)"
    by (intro chat_reacquire_fails [OF valid]) blast+
  then show "fst (chat env msg w)
              = Inl (HTTPException 503 ''Authentication service unavailable'')"
    by simp
qed

theorem network_failure_categories_witness:
  "fst (chat env_inference_down hello initial_world)
     = Inl (HTTPException 503 ''Service unavailable'')
   \<and> fst (chat env_second_dispatch_down hello initial_world)
       = Inl (HTTPException 503 ''Service unavailable'')
   \<and> fst (chat env_identity_down hello initial_world)
       = Inl (HTTPException 401 ''Authentication failed'')
   \<and> fst (chat env_reauth_down hello initial_world)
       = Inl (HTTPException 503 ''Authentication service unavailable'')"
proof -
  let ?r = "\<lparr>status_code = 401, text_of = [], json_of = None\<rparr>"
  note cats = network_failure_categories [OF strip_hello]
  have id2: "identity_result env_second_dispatch_down k
      = Inr (JStr (if k = 0 then ''t1'' else ''t2''))" for k
    by (simp add: identity_result_def env_second_dispatch_down_def services_def token_reply_def
        of_reply_def read_access_token_def raise_for_status_def response_json_def try_bind_def)
  have inf2: "inference env_second_dispatch_down 0 = Responds ?r"
    "inference env_second_dispatch_down (Suc 0) = NetworkFailure"
    by (simp_all add: env_second_dispatch_down_def services_def status_reply_def)
  obtain u1 where u: "get_ibm_token env_inference_down initial_world = (Inr (JStr ''t1''), u1)"
    and u1: "sent u1 = []"
    by (rule first_token_run [of env_inference_down "JStr ''t1''"])
      (simp add: identity_result_values)
  from cats [where env = env_inference_down and w = initial_world] u u1
  have p1: "fst (chat env_inference_down hello initial_world)
     = Inl (HTTPException 503 ''Service unavailable'')"
    by (simp add: inference_values)
  let ?env = env_second_dispatch_down
  obtain v1 where v: "get_ibm_token ?env initial_world = (Inr (JStr ''t1''), v1)"
    and v1: "sent v1 = []" "id_posts v1 = 1"
    by (rule first_token_run [of ?env "JStr ''t1''"]) (simp add: id2)
  obtain v1' where first: "post_inference ?env (select_endpoint hello)
        (get_watsonx_payload (message hello)) (bearer_headers (JStr ''t1'')) v1 = (Inr ?r, v1')"
    and v1': "sent v1' = [dispatch_of hello (bearer_headers (JStr ''t1''))]"
      "id_posts v1' = id_posts v1"
    by (rule first_dispatch_run [OF v1(1) inf2(1)])
  let ?v2 = "snd (get_ibm_token ?env (invalidate v1'))"
  have reauth: "get_ibm_token ?env (invalidate v1') = (Inr (JStr ''t2''), ?v2)"
    and v2: "sent ?v2 = sent v1'"
    using get_ibm_token_first_try [of "invalidate v1'" ?env "JStr ''t2''"]
    by (simp_all add: invalidate_def id2 v1 v1')
  have "inference ?env (length (sent ?v2)) = NetworkFailure"
    by (simp add: v2 v1' inf2)
  with cats [where env = ?env and w = initial_world, THEN conjunct2, THEN conjunct1] v first reauth
  have p2: "fst (chat ?env hello initial_world) = Inl (HTTPException 503 ''Service unavailable'')"
    by (metis http_response.select_convs(1))
  from cats [where env = env_identity_down and w = initial_world]
  have p3: "fst (chat env_identity_down hello initial_world)
       = Inl (HTTPException 401 ''Authentication failed'')"
    by (simp add: cache_valid_def initial_world_fields inference_values)
  let ?env' = env_reauth_down
  obtain x1 where x: "get_ibm_token ?env' initial_world = (Inr (JStr ''t1''), x1)"
    and x1: "sent x1 = []" "id_posts x1 = 1"
    by (rule first_token_run [of ?env' "JStr ''t1''"]) (simp add: identity_result_values)
  obtain x1' where first': "post_inference ?env' (select_endpoint hello)
        (get_watsonx_payload (message hello)) (bearer_headers (JStr ''t1'')) x1 = (Inr ?r, x1')"
    by (rule first_dispatch_run [OF x1(1) inference_values(2)])
  have "\<forall>k<3. identity ?env' (id_posts x1 + k) = NetworkFailure"
    by (simp add: x1 inference_values)
  with cats [where env = ?env' and w = initial_world, THEN conjunct2, THEN conjunct2, THEN conjunct2] x first'
  have p4: "fst (chat ?env' hello initial_world)
       = Inl (HTTPException 503 ''Authentication service unavailable'')"
    by (metis http_response.select_convs(1))
  from p1 p2 p3 p4 show ?thesis by simp
qed

theorem identity_unreachable_counterexample:
  "identity env_identity_down 0 = NetworkFailure
   \<and> identity env_identity_down 1 = NetworkFailure
   \<and> identity env_identity_down 2 = NetworkFailure
   \<and> fst (chat env_identity_down hello initial_world)
       = Inl (HTTPException 401 ''Authentication failed'')
   \<and> fst (chat env_identity_down hello initial_world)
       \<noteq> Inl (HTTPException 503 ''Service unavailable'')"
  by (simp add: chat_identity_down inference_values)

section \<open>The claims about the request translator and the response normalizer\<close>

text \<open>
  C8. The payload of a message has exactly the keys \<^verbatim>\<open>messages\<close>, \<^verbatim>\<open>project_id\<close> and
  \<^verbatim>\<open>parameters\<close>; its \<^verbatim>\<open>messages\<close> are one turn, with role "user" and the message itself as
  content; the project identifier and the generation parameters are the same for every
  message; the payload depends on the message alone, and two payloads are equal exactly
  when their messages are.
\<close>

theorem get_watsonx_payload_shape:
  "(\<exists>turn. py_getitem (get_watsonx_payload m) ''messages'' = Inr (JArr [turn])
       \<and> py_getitem turn ''role'' = Inr (JStr ''user'')
       \<and> py_getitem turn ''content'' = Inr (JStr m))
   \<and> py_getitem (get_watsonx_payload m) ''project_id'' = Inr (JStr ''your_PROJECT_ID'')
   \<and> py_getitem (get_watsonx_payload m) ''parameters''
       = Inr (JObj [(''max_new_tokens'', JInt 200), (''temperature'', JFloat ''0.7''),
                    (''top_p'', JFloat ''0.9''), (''repetition_penalty'', JFloat ''1.1'')])
   \<and> (\<exists>a b c. get_watsonx_payload m
         = JObj [(''messages'', a), (''project_id'', b), (''parameters'', c)])
   \<and> py_getitem (get_watsonx_payload m) ''project_id''
       = py_getitem (get_watsonx_payload m') ''project_id''
   \<and> py_getitem (get_watsonx_payload m) ''parameters''
       = py_getitem (get_watsonx_payload m') ''parameters''
   \<and> (get_watsonx_payload m = get_watsonx_payload m') = (m = m')"
  by (auto simp: get_watsonx_payload_def PROJECT_ID_def)

theorem get_watsonx_payload_shape_witness:
  "py_getitem (get_watsonx_payload ''hello'') ''messages''
     = Inr (JArr [JObj [(''content'', JStr ''hello''), (''role'', JStr ''user'')]])
   \<and> get_watsonx_payload ''hello'' \<noteq> get_watsonx_payload ''hello ''"
  using get_watsonx_payload_shape [of "''hello''" "''hello ''"]
  by (simp add: get_watsonx_payload_def)

text \<open>The normalizer on a dict: what decides is the value under \<^verbatim>\<open>choices\<close>.\<close>

lemma py_in_dict: "py_in k (JObj kvs) = Inr (map_of kvs k \<noteq> None)"
  by (simp add: map_of_eq_None_iff)

lemma format_response_try_dict:
  "format_response_try (JObj kvs) =
     (case map_of kvs ''choices'' of
        None \<Rightarrow> Inr (JStr (py_str (JObj kvs)))
      | Some c \<Rightarrow>
          if truthy c then
            try_bind (py_first c) (\<lambda>choice.
            try_bind (py_get choice ''message'' (JObj [])) (\<lambda>m.
            py_get m ''content'' (JStr ''No response content'')))
          else Inr (JStr (py_str (JObj kvs))))"
  unfolding format_response_try_def py_in_dict
  by (simp add: try_bind_def split: option.splits)

lemma format_response_total: "\<exists>v. format_response data = Inr v"
  by (simp add: format_response_def split: sum.splits)

lemma no_dict_choice:
  assumes "truthy c" and "\<forall>x xs. c \<noteq> JArr (JObj x # xs)"
  shows "\<exists>e. try_bind (py_first c) (\<lambda>choice.
            try_bind (py_get choice ''message'' (JObj [])) (\<lambda>m.
            py_get m ''content'' (JStr ''No response content''))) = Inl e"
proof (cases c)
  case (JArr ys)
  with assms show ?thesis
    by (cases ys; cases "hd ys") (auto simp: try_bind_def)
next
  case (JStr s)
  then show ?thesis by (cases s) (auto simp: try_bind_def)
qed (auto simp: try_bind_def)

text \<open>
  C6 (as the code has it). The three inputs of the claim give "hi", the string rendering
  of the whole body (\<^verbatim>\<open>{'choices': []}\<close>) and "No response content". A number, a boolean
  and \<^verbatim>\<open>None\<close> give the placeholder, and so do a list with the element "choices", a
  string that contains "choices", and a dict whose truthy \<^verbatim>\<open>choices\<close> is not a list
  starting with a dict. A list without the element "choices" gives its string rendering,
  and a string that does not contain "choices" gives itself.
\<close>

theorem format_response_cases:
  "format_response (JObj [(''choices'', JArr [JObj [(''message'',
       JObj [(''content'', JStr ''hi'')])]])]) = Inr (JStr ''hi'')
   \<and> format_response (JObj [(''choices'', JArr [])])
       = Inr (JStr (py_str (JObj [(''choices'', JArr [])])))
   \<and> py_str (JObj [(''choices'', JArr [])]) = ''{'choices': []}''
   \<and> format_response (JObj [(''choices'', JArr [JObj [(''message'', JObj [])]])])
       = Inr (JStr ''No response content'')
   \<and> format_response JNull = Inr (JStr ''Received response but couldn't parse it'')
   \<and> format_response (JBool b) = Inr (JStr ''Received response but couldn't parse it'')
   \<and> format_response (JInt i) = Inr (JStr ''Received response but couldn't parse it'')
   \<and> format_response (JFloat r) = Inr (JStr ''Received response but couldn't parse it'')
   \<and> format_response (JArr xs)
       = Inr (JStr (if JStr ''choices'' \<in> set xs
                    then ''Received response but couldn't parse it'' else py_str (JArr xs)))
   \<and> format_response (JStr s)
       = Inr (JStr (if is_substring ''choices'' s
                    then ''Received response but couldn't parse it'' else s))
   \<and> (\<forall>c. map_of kvs ''choices'' = Some c \<and> truthy c \<and> (\<forall>x ys. c \<noteq> JArr (JObj x # ys)) \<longrightarrow>
         format_response (JObj kvs) = Inr (JStr ''Received response but couldn't parse it''))"
proof -
  have given: "format_response (JObj [(''choices'', JArr [JObj [(''message'',
       JObj [(''content'', JStr ''hi'')])]])]) = Inr (JStr ''hi'')"
    "format_response (JObj [(''choices'', JArr [])])
       = Inr (JStr (py_str (JObj [(''choices'', JArr [])])))"
    "format_response (JObj [(''choices'', JArr [JObj [(''message'', JObj [])]])])
       = Inr (JStr ''No response content'')"
    by (simp_all add: format_response_def format_response_try_def try_bind_def)
  have rendering: "py_str (JObj [(''choices'', JArr [])]) = ''{'choices': []}''"
    by (simp add: py_str_def repr_str_def repr_char_def printable_def quote_for_def)
  have scalars: "format_response JNull = Inr (JStr ''Received response but couldn't parse it'')"
    "format_response (JBool b) = Inr (JStr ''Received response but couldn't parse it'')"
    "format_response (JInt i) = Inr (JStr ''Received response but couldn't parse it'')"
    "format_response (JFloat r) = Inr (JStr ''Received response but couldn't parse it'')"
    by (simp_all add: format_response_def format_response_try_def try_bind_def)
  have containers: "format_response (JArr xs)
       = Inr (JStr (if JStr ''choices'' \<in> set xs
                    then ''Received response but couldn't parse it'' else py_str (JArr xs)))"
    "format_response (JStr s)
       = Inr (JStr (if is_substring ''choices'' s
                    then ''Received response but couldn't parse it'' else s))"
    by (simp_all add: format_response_def format_response_try_def try_bind_def py_str_def)
  have shape: "format_response (JObj kvs) = Inr (JStr ''Received response but couldn't parse it'')"
    if "map_of kvs ''choices'' = Some c" "truthy c" "\<forall>x ys. c \<noteq> JArr (JObj x # ys)" for c
    using no_dict_choice [OF that(2,3)] that(1,2)
    by (auto simp: format_response_def format_response_try_dict)
  from given rendering scalars containers shape show ?thesis
    by blast
qed

theorem format_response_cases_witness:
  "format_response (JArr [JStr ''choices''])
     = Inr (JStr ''Received response but couldn't parse it'')
   \<and> format_response (JStr ''no choices left'')
       = Inr (JStr ''Received response but couldn't parse it'')
   \<and> format_response (JStr ''plain'') = Inr (JStr ''plain'')
   \<and> format_response (JObj [(''choices'', JInt 5)])
       = Inr (JStr ''Received response but couldn't parse it'')"
  using format_response_cases [of True 0 "[]" "[JStr ''choices'']" "''no choices left''"
      "[(''choices'', JInt 5)]"]
    format_response_cases [of True 0 "[]" "[]" "''plain''" "[]"]
  by simp

theorem list_rendered_counterexample:
  "format_response (JArr []) = Inr (JStr ''[]'')
   \<and> format_response (JArr []) \<noteq> Inr (JStr ''Received response but couldn't parse it'')"
  by (simp add: format_response_def format_response_try_def try_bind_def py_str_def)

text \<open>
  C7. The claim holds but for the type of the result: \<^verbatim>\<open>format_response\<close> returns the
  \<^verbatim>\<open>content\<close> it finds without converting it, so a content that is a number is returned
  as a number, against the annotation \<^verbatim>\<open>-> str\<close> of the function.
\<close>

theorem format_response_returns_number:
  "format_response (JObj [(''choices'', JArr [JObj [(''message'',
       JObj [(''content'', JInt 5)])]])]) = Inr (JInt 5)"
  by (simp add: format_response_def format_response_try_def try_bind_def)


end
